theory Spec2Isabelle
  imports Complex_Main
begin

section \<open>JavaScript numbers\<close>

text \<open>
  A JavaScript \<^verbatim>\<open>Number\<close> is an IEEE 754 binary64 value. The sensor hook divides two of
  them and compares the quotient with literals, so the special values matter: the model
  keeps both zeros, both infinities and NaN apart. \<open>Fin x\<close> is the finite value \<open>x\<close>
  (\<open>Fin 0\<close> is positive zero) and \<open>NegZero\<close> is \<^verbatim>\<open>-0\<close>. Rounding of a finite quotient
  to binary64 (with overflow and underflow) is the parameter \<open>rnd\<close> of the division:
  nothing below depends on how it rounds, unless a statement says so.
\<close>

datatype jsnum = Fin rat | NegZero | PosInf | NegInf | NaN

fun is_zero :: "jsnum \<Rightarrow> bool" where
  "is_zero (Fin x) = (x = 0)"
| "is_zero NegZero = True"
| "is_zero _ = False"

fun is_inf :: "jsnum \<Rightarrow> bool" where
  "is_inf PosInf = True"
| "is_inf NegInf = True"
| "is_inf _ = False"

fun is_fin :: "jsnum \<Rightarrow> bool" where
  "is_fin (Fin x) = True"
| "is_fin NegZero = True"
| "is_fin _ = False"

fun sign_neg :: "jsnum \<Rightarrow> bool" where
  "sign_neg (Fin x) = (x < 0)"
| "sign_neg NegZero = True"
| "sign_neg NegInf = True"
| "sign_neg _ = False"

fun fin_val :: "jsnum \<Rightarrow> rat" where
  "fin_val (Fin x) = x"
| "fin_val _ = 0"

text \<open>The operator \<^verbatim>\<open>/\<close>: IEEE 754 division, which never throws.\<close>

definition js_div :: "(rat \<Rightarrow> jsnum) \<Rightarrow> jsnum \<Rightarrow> jsnum \<Rightarrow> jsnum" where
  "js_div rnd a b =
    (if a = NaN \<or> b = NaN then NaN
     else if (is_zero a \<and> is_zero b) \<or> (is_inf a \<and> is_inf b) then NaN
     else if is_inf a \<or> is_zero b then (if sign_neg a \<noteq> sign_neg b then NegInf else PosInf)
     else if is_zero a \<or> is_inf b then (if sign_neg a \<noteq> sign_neg b then NegZero else Fin 0)
     else rnd (fin_val a / fin_val b))"

text \<open>The operators \<^verbatim>\<open>>=\<close>, \<^verbatim>\<open><\<close> and \<^verbatim>\<open>===\<close>: every comparison with NaN is false, the two
  zeros compare equal.\<close>

definition js_ge :: "jsnum \<Rightarrow> jsnum \<Rightarrow> bool" where
  "js_ge a b =
    (a \<noteq> NaN \<and> b \<noteq> NaN \<and>
     (a = PosInf \<or> b = NegInf \<or> (is_fin a \<and> is_fin b \<and> fin_val a \<ge> fin_val b)))"

definition js_lt :: "jsnum \<Rightarrow> jsnum \<Rightarrow> bool" where
  "js_lt a b =
    (a \<noteq> NaN \<and> b \<noteq> NaN \<and>
     ((a = NegInf \<and> b \<noteq> NegInf) \<or> (b = PosInf \<and> a \<noteq> PosInf) \<or>
      (is_fin a \<and> is_fin b \<and> fin_val a < fin_val b)))"

definition js_strict_eq :: "jsnum \<Rightarrow> jsnum \<Rightarrow> bool" where
  "js_strict_eq a b = (a \<noteq> NaN \<and> b \<noteq> NaN \<and> (a = b \<or> (is_zero a \<and> is_zero b)))"

section \<open>Documents, errors, users\<close>

text \<open>
  A Mongoose document is its data together with the change tracking the hooks read:
  \<open>isNew\<close> and the set of modified paths. \<open>hydrate\<close> is what \<^verbatim>\<open>findById\<close> returns for a
  stored value: an old document with nothing modified. Assigning to a path marks it
  modified when the document is new or the value differs from the one held
  (\<open>markModified\<close>); a successful save clears the tracking (\<open>saved\<close>).
\<close>

type_synonym objectId = nat

record 'a document =
  doc :: 'a
  isNew :: bool
  modifiedPaths :: "string set"

definition isModified :: "string \<Rightarrow> 'a document \<Rightarrow> bool" where
  "isModified p d = (p \<in> modifiedPaths d)"

definition hydrate :: "'a \<Rightarrow> 'a document" where
  "hydrate x = \<lparr>doc = x, isNew = False, modifiedPaths = {}\<rparr>"

definition construct :: "'a \<Rightarrow> string set \<Rightarrow> 'a document" where
  "construct x given = \<lparr>doc = x, isNew = True, modifiedPaths = given\<rparr>"

definition markModified :: "string \<Rightarrow> bool \<Rightarrow> 'a document \<Rightarrow> string set" where
  "markModified p same d =
    (if isNew d \<or> \<not> same then insert p (modifiedPaths d) else modifiedPaths d)"

definition saved :: "'a document \<Rightarrow> 'a document" where
  "saved d = \<lparr>doc = doc d, isNew = False, modifiedPaths = {}\<rparr>"

text \<open>
  Errors: \<open>AppError\<close> is thrown by a route handler (message, HTTP status), \<open>Denied\<close> is
  the response of an authorisation middleware, \<open>HookError\<close> a plain \<^verbatim>\<open>Error\<close> thrown by
  a model hook, \<open>ValidationError\<close> the rejection of a save whose value cannot be cast.
\<close>

datatype error =
    AppError string nat
  | Denied nat string
  | HookError string
  | ValidationError string

text \<open>
  Every route below is mounted behind \<^verbatim>\<open>authenticateToken\<close>, which answers 401 itself or sets
  \<^verbatim>\<open>req.user\<close>: a route handler always has a user, and the middleware that checks
  \<^verbatim>\<open>!req.user\<close> again is given \<open>Some u\<close>.
\<close>

datatype role = RoleUser | RoleAdmin

record user =
  user_id :: objectId
  user_role :: role

definition requireAdmin :: "user option \<Rightarrow> error option" where
  "requireAdmin u =
    (case u of
       None \<Rightarrow> Some (Denied 401 ''Authentication required'')
     | Some usr \<Rightarrow>
         if user_role usr \<noteq> RoleAdmin then Some (Denied 403 ''Access denied'') else None)"

text \<open>
  \<open>requireOwnershipOrAdmin('userId')\<close> compares the user with the \<^verbatim>\<open>userId\<close> of the URL
  parameters or of the body, not with the owner of the stored resource; the routes that use
  it have no such URL parameter, so \<open>given\<close> is the body's field.
\<close>

definition requireOwnershipOrAdmin :: "user option \<Rightarrow> objectId option \<Rightarrow> error option" where
  "requireOwnershipOrAdmin u given =
    (case u of
       None \<Rightarrow> Some (Denied 401 ''Authentication required'')
     | Some usr \<Rightarrow>
         if user_role usr = RoleAdmin then None
         else (case given of
                 None \<Rightarrow> None
               | Some rid \<Rightarrow> if rid \<noteq> user_id usr then Some (Denied 403 ''Access denied'') else None))"

section \<open>Sensors\<close>

datatype sstatus = Normal | Warning | Critical | Offline

record alert =
  alert_id :: objectId
  alert_type :: string
  alert_message :: string
  severity :: string
  alert_timestamp :: int
  isAcknowledged :: bool
  acknowledgedBy :: "objectId option"
  acknowledgedAt :: "int option"

text \<open>
  The sensor schema. Times are milliseconds. The descriptive fields that no code path
  reads (location, manufacturer, model, firmware version, calibration dates) are left out.
\<close>

record sensor =
  name :: string
  sensor_type :: string
  deviceId :: string
  unit_name :: string
  currentValue :: jsnum
  thresholdValue :: jsnum
  status :: sstatus
  isActive :: bool
  lastReading_value :: "jsnum option"
  lastReading_timestamp :: int
  batteryLevel :: "int option"
  signalStrength :: "int option"
  maintenanceHistory :: "(int \<times> string \<times> string \<times> string) list"
  alerts :: "alert list"
  dataPoints :: "(jsnum \<times> int) list"

subsection \<open>The pre-save hook and save\<close>

text \<open>
  \<^verbatim>\<open>sensorSchema.pre('save')\<close>: the status is recomputed from the ratio when either value
  was modified, the last reading when the current value was. The hook has no \<^verbatim>\<open>throw\<close>:
  it always reaches \<^verbatim>\<open>next()\<close>.
\<close>

definition sensor_pre_save :: "int \<Rightarrow> (rat \<Rightarrow> jsnum) \<Rightarrow> sensor document \<Rightarrow> error + sensor document" where
  "sensor_pre_save now rnd d =
    (let d1 =
       (if isModified ''currentValue'' d \<or> isModified ''thresholdValue'' d then
          (let ratio = js_div rnd (currentValue (doc d)) (thresholdValue (doc d)) in
             if js_ge ratio (Fin (3 / 2)) then d\<lparr>doc := (doc d)\<lparr>status := Critical\<rparr>\<rparr>
             else if js_ge ratio (Fin 1) then d\<lparr>doc := (doc d)\<lparr>status := Warning\<rparr>\<rparr>
             else d\<lparr>doc := (doc d)\<lparr>status := Normal\<rparr>\<rparr>)
        else d);
         d2 =
       (if isModified ''currentValue'' d1 then
          d1\<lparr>doc := (doc d1)\<lparr>lastReading_value := Some (currentValue (doc d1)),
                                lastReading_timestamp := now\<rparr>\<rparr>
        else d1)
     in Inr d2)"

definition sensor_save :: "int \<Rightarrow> (rat \<Rightarrow> jsnum) \<Rightarrow> sensor document \<Rightarrow> error + sensor document" where
  "sensor_save now rnd d =
    (case sensor_pre_save now rnd d of Inl e \<Rightarrow> Inl e | Inr d' \<Rightarrow> Inr (saved d'))"

text \<open>The status a save derives, \<open>None\<close> if the save fails.\<close>

definition saved_status :: "error + sensor document \<Rightarrow> sstatus option" where
  "saved_status r = (case r of Inl e \<Rightarrow> None | Inr d \<Rightarrow> Some (status (doc d)))"

subsection \<open>Instance methods\<close>

definition set_currentValue :: "jsnum \<Rightarrow> sensor document \<Rightarrow> sensor document" where
  "set_currentValue v d =
    d\<lparr>doc := (doc d)\<lparr>currentValue := v\<rparr>,
      modifiedPaths := markModified ''currentValue'' (js_strict_eq v (currentValue (doc d))) d\<rparr>"

definition set_thresholdValue :: "jsnum \<Rightarrow> sensor document \<Rightarrow> sensor document" where
  "set_thresholdValue v d =
    d\<lparr>doc := (doc d)\<lparr>thresholdValue := v\<rparr>,
      modifiedPaths := markModified ''thresholdValue'' (js_strict_eq v (thresholdValue (doc d))) d\<rparr>"

text \<open>
  \<^verbatim>\<open>addDataPoint\<close>. A value that is NaN cannot be cast to the schema's Number, and the
  save is rejected; every other number is stored. \<^verbatim>\<open>slice(-1000)\<close> keeps the last 1000
  elements.
\<close>

definition addDataPoint :: "int \<Rightarrow> (rat \<Rightarrow> jsnum) \<Rightarrow> jsnum \<Rightarrow> sensor document \<Rightarrow> error + sensor document" where
  "addDataPoint now rnd v d =
    (if v = NaN then Inl (ValidationError ''Cast to Number failed'')
     else
       (let d1 = set_currentValue v d;
            pts = dataPoints (doc d1) @ [(v, now)];
            pts' = (if length pts > 1000 then drop (length pts - 1000) pts else pts);
            d2 = d1\<lparr>doc := (doc d1)\<lparr>dataPoints := pts'\<rparr>\<rparr>
        in sensor_save now rnd d2))"

definition addAlert :: "int \<Rightarrow> (rat \<Rightarrow> jsnum) \<Rightarrow> objectId \<Rightarrow> string \<Rightarrow> string \<Rightarrow> string \<Rightarrow> sensor document \<Rightarrow> error + sensor document" where
  "addAlert now rnd nid ty msg sev d =
    sensor_save now rnd
      (d\<lparr>doc := (doc d)\<lparr>alerts := alerts (doc d) @
          [\<lparr>alert_id = nid, alert_type = ty, alert_message = msg, severity = sev,
            alert_timestamp = now, isAcknowledged = False, acknowledgedBy = None,
            acknowledgedAt = None\<rparr>]\<rparr>\<rparr>)"

text \<open>\<^verbatim>\<open>this.alerts.id(alertId)\<close> is the first alert with that id, or null; an id of the wrong
  format matches none.\<close>

fun acknowledge_first :: "int \<Rightarrow> objectId \<Rightarrow> objectId \<Rightarrow> alert list \<Rightarrow> alert list" where
  "acknowledge_first now alertId userId [] = []"
| "acknowledge_first now alertId userId (a # as) =
     (if alert_id a = alertId
      then a\<lparr>isAcknowledged := True, acknowledgedBy := Some userId, acknowledgedAt := Some now\<rparr> # as
      else a # acknowledge_first now alertId userId as)"

definition acknowledgeAlert :: "int \<Rightarrow> (rat \<Rightarrow> jsnum) \<Rightarrow> objectId \<Rightarrow> objectId \<Rightarrow> sensor document \<Rightarrow> error + sensor document" where
  "acknowledgeAlert now rnd alertId userId d =
    sensor_save now rnd
      (d\<lparr>doc := (doc d)\<lparr>alerts := acknowledge_first now alertId userId (alerts (doc d))\<rparr>\<rparr>)"

definition addMaintenanceRecord :: "int \<Rightarrow> (rat \<Rightarrow> jsnum) \<Rightarrow> string \<Rightarrow> string \<Rightarrow> string \<Rightarrow> sensor document \<Rightarrow> error + sensor document" where
  "addMaintenanceRecord now rnd ty descr performedBy d =
    sensor_save now rnd
      (d\<lparr>doc := (doc d)\<lparr>maintenanceHistory :=
          maintenanceHistory (doc d) @ [(now, ty, descr, performedBy)]\<rparr>\<rparr>)"

subsection \<open>Routes of \<^verbatim>\<open>/api/sensors\<close>\<close>

text \<open>
  A route takes the authenticated user, the request body and the result of \<^verbatim>\<open>findById\<close>
  (\<open>None\<close> when there is no such sensor), and answers with an error or with a message and
  the document it saved last. Every \<^verbatim>\<open>throw\<close> of a handler comes before its first save, so
  an error leaves the store as it was: \<open>sensor_stored\<close> is the stored sensor after the
  request.

  express-validator's \<^verbatim>\<open>isNumeric\<close> accepts plain decimal numerals only: NaN and the
  infinities never pass (\<open>isNumeric\<close> below accepts every finite number, which is all a
  statement about accepted requests needs).
\<close>

definition isNumeric :: "jsnum \<Rightarrow> bool" where
  "isNumeric v = is_fin v"

definition isInt_0_100 :: "int option \<Rightarrow> bool" where
  "isInt_0_100 v = (case v of None \<Rightarrow> True | Some n \<Rightarrow> 0 \<le> n \<and> n \<le> 100)"

record sensor_body =
  sb_name :: string
  sb_type :: string
  sb_deviceId :: string
  sb_currentValue :: jsnum
  sb_thresholdValue :: jsnum
  sb_unit :: string

definition sensor_types :: "string list" where
  "sensor_types = [''door-tracking'', ''odor'', ''humidity'', ''bin-level'', ''temperature'', ''air-quality'']"

definition alert_types :: "string list" where
  "alert_types = [''threshold-exceeded'', ''device-offline'', ''battery-low'', ''calibration-due'']"

definition severities :: "string list" where
  "severities = [''low'', ''medium'', ''high'', ''critical'']"

definition validateSensor :: "sensor_body \<Rightarrow> string option" where
  "validateSensor b =
    (if \<not> (1 \<le> length (sb_name b) \<and> length (sb_name b) \<le> 100)
       then Some ''Sensor name must be between 1 and 100 characters''
     else if sb_type b \<notin> set sensor_types then Some ''Invalid sensor type''
     else if \<not> 1 \<le> length (sb_deviceId b) then Some ''Device ID is required''
     else if \<not> isNumeric (sb_currentValue b) then Some ''Current value must be a number''
     else if \<not> isNumeric (sb_thresholdValue b) then Some ''Threshold value must be a number''
     else if \<not> 1 \<le> length (sb_unit b) then Some ''Unit is required''
     else None)"

definition sensor_stored :: "sensor \<Rightarrow> error + (string \<times> sensor document) \<Rightarrow> sensor" where
  "sensor_stored s r = (case r of Inl e \<Rightarrow> s | Inr (m, d) \<Rightarrow> doc d)"

text \<open>\<^verbatim>\<open>POST /api/sensors\<close>; \<open>existing\<close> says whether a sensor with the body's device id
  is already stored.\<close>

definition post_sensor :: "int \<Rightarrow> (rat \<Rightarrow> jsnum) \<Rightarrow> user \<Rightarrow> sensor_body \<Rightarrow> bool \<Rightarrow> error + (string \<times> sensor document)" where
  "post_sensor now rnd u b existing =
    (case requireAdmin (Some u) of
       Some e \<Rightarrow> Inl e
     | None \<Rightarrow>
        (case validateSensor b of
           Some m \<Rightarrow> Inl (AppError m 400)
         | None \<Rightarrow>
            if existing then Inl (AppError ''Sensor with this device ID already exists'' 400)
            else
              (case sensor_save now rnd
                      (construct
                         \<lparr>name = sb_name b, sensor_type = sb_type b, deviceId = sb_deviceId b,
                          unit_name = sb_unit b, currentValue = sb_currentValue b,
                          thresholdValue = sb_thresholdValue b, status = Normal, isActive = True,
                          lastReading_value = None, lastReading_timestamp = now,
                          batteryLevel = None, signalStrength = None, maintenanceHistory = [],
                          alerts = [], dataPoints = []\<rparr>
                         {''name'', ''type'', ''deviceId'', ''currentValue'', ''thresholdValue'', ''unit''}) of
                 Inl e \<Rightarrow> Inl e
               | Inr d \<Rightarrow> Inr (''Sensor created successfully'', d))))"

text \<open>\<^verbatim>\<open>PUT /api/sensors/:id\<close>; the validated body holds all six fields.\<close>

definition put_sensor :: "int \<Rightarrow> (rat \<Rightarrow> jsnum) \<Rightarrow> user \<Rightarrow> sensor_body \<Rightarrow> bool \<Rightarrow> sensor option \<Rightarrow> error + (string \<times> sensor document)" where
  "put_sensor now rnd u b existing found =
    (case requireAdmin (Some u) of
       Some e \<Rightarrow> Inl e
     | None \<Rightarrow>
        (case validateSensor b of
           Some m \<Rightarrow> Inl (AppError m 400)
         | None \<Rightarrow>
            (case found of
               None \<Rightarrow> Inl (AppError ''Sensor not found'' 404)
             | Some s \<Rightarrow>
                if sb_deviceId b \<noteq> deviceId s \<and> existing
                then Inl (AppError ''Sensor with this device ID already exists'' 400)
                else
                  (let d0 = hydrate s;
                       d1 = d0\<lparr>doc := (doc d0)\<lparr>name := sb_name b, sensor_type := sb_type b,
                                                deviceId := sb_deviceId b\<rparr>\<rparr>;
                       d2 = set_currentValue (sb_currentValue b) d1;
                       d3 = set_thresholdValue (sb_thresholdValue b) d2;
                       d4 = d3\<lparr>doc := (doc d3)\<lparr>unit_name := sb_unit b\<rparr>\<rparr>
                   in case sensor_save now rnd d4 of
                        Inl e \<Rightarrow> Inl e
                      | Inr d \<Rightarrow> Inr (''Sensor updated successfully'', d)))))"

text \<open>\<^verbatim>\<open>DELETE /api/sensors/:id\<close>: a soft delete.\<close>

definition delete_sensor :: "int \<Rightarrow> (rat \<Rightarrow> jsnum) \<Rightarrow> user \<Rightarrow> sensor option \<Rightarrow> error + (string \<times> sensor document)" where
  "delete_sensor now rnd u found =
    (case requireAdmin (Some u) of
       Some e \<Rightarrow> Inl e
     | None \<Rightarrow>
        (case found of
           None \<Rightarrow> Inl (AppError ''Sensor not found'' 404)
         | Some s \<Rightarrow>
            (let d0 = hydrate s;
                 d1 = d0\<lparr>doc := (doc d0)\<lparr>isActive := False\<rparr>\<rparr>
             in case sensor_save now rnd d1 of
                  Inl e \<Rightarrow> Inl e
                | Inr d \<Rightarrow> Inr (''Sensor deleted successfully'', d))))"

text \<open>\<^verbatim>\<open>POST /api/sensors/:id/data\<close>: no role is required; an inactive sensor is refused.\<close>

definition post_sensor_data :: "int \<Rightarrow> (rat \<Rightarrow> jsnum) \<Rightarrow> jsnum \<Rightarrow> int option \<Rightarrow> int option \<Rightarrow> sensor option \<Rightarrow> error + (string \<times> sensor document)" where
  "post_sensor_data now rnd v battery signal found =
    (if \<not> isNumeric v then Inl (AppError ''Value must be a number'' 400)
     else if \<not> isInt_0_100 battery then Inl (AppError ''Battery level must be between 0 and 100'' 400)
     else if \<not> isInt_0_100 signal then Inl (AppError ''Signal strength must be between 0 and 100'' 400)
     else
       (case found of
          None \<Rightarrow> Inl (AppError ''Sensor not found'' 404)
        | Some s \<Rightarrow>
           if \<not> isActive s then Inl (AppError ''Sensor is inactive'' 400)
           else
             (case addDataPoint now rnd v (hydrate s) of
                Inl e \<Rightarrow> Inl e
              | Inr d1 \<Rightarrow>
                 (let d2 = (case battery of None \<Rightarrow> d1
                            | Some b \<Rightarrow> d1\<lparr>doc := (doc d1)\<lparr>batteryLevel := Some b\<rparr>\<rparr>);
                      d3 = (case signal of None \<Rightarrow> d2
                            | Some g \<Rightarrow> d2\<lparr>doc := (doc d2)\<lparr>signalStrength := Some g\<rparr>\<rparr>)
                  in case sensor_save now rnd d3 of
                       Inl e \<Rightarrow> Inl e
                     | Inr d \<Rightarrow> Inr (''Data point added successfully'', d)))))"

text \<open>\<^verbatim>\<open>POST /api/sensors/:id/alert\<close>; \<open>nid\<close> is the id the new alert gets. The handler reads
  \<^verbatim>\<open>isActive\<close> nowhere.\<close>

definition post_sensor_alert :: "int \<Rightarrow> (rat \<Rightarrow> jsnum) \<Rightarrow> user \<Rightarrow> objectId \<Rightarrow> string \<Rightarrow> string \<Rightarrow> string option \<Rightarrow> sensor option \<Rightarrow> error + (string \<times> sensor document)" where
  "post_sensor_alert now rnd u nid ty msg sev found =
    (case requireAdmin (Some u) of
       Some e \<Rightarrow> Inl e
     | None \<Rightarrow>
        if ty \<notin> set alert_types then Inl (AppError ''Invalid alert type'' 400)
        else if \<not> (1 \<le> length msg \<and> length msg \<le> 200)
          then Inl (AppError ''Alert message must be between 1 and 200 characters'' 400)
        else if (case sev of None \<Rightarrow> False | Some sv \<Rightarrow> sv \<notin> set severities)
          then Inl (AppError ''Invalid severity level'' 400)
        else
          (case found of
             None \<Rightarrow> Inl (AppError ''Sensor not found'' 404)
           | Some s \<Rightarrow>
              (case addAlert now rnd nid ty msg (case sev of None \<Rightarrow> ''medium'' | Some sv \<Rightarrow> sv) (hydrate s) of
                 Inl e \<Rightarrow> Inl e
               | Inr d \<Rightarrow> Inr (''Alert added successfully'', d))))"

text \<open>\<^verbatim>\<open>POST /api/sensors/:id/alert/:alertId/acknowledge\<close>.\<close>

definition post_sensor_alert_acknowledge :: "int \<Rightarrow> (rat \<Rightarrow> jsnum) \<Rightarrow> user \<Rightarrow> objectId \<Rightarrow> sensor option \<Rightarrow> error + (string \<times> sensor document)" where
  "post_sensor_alert_acknowledge now rnd u alertId found =
    (case requireAdmin (Some u) of
       Some e \<Rightarrow> Inl e
     | None \<Rightarrow>
        (case found of
           None \<Rightarrow> Inl (AppError ''Sensor not found'' 404)
         | Some s \<Rightarrow>
            (case acknowledgeAlert now rnd alertId (user_id u) (hydrate s) of
               Inl e \<Rightarrow> Inl e
             | Inr d \<Rightarrow> Inr (''Alert acknowledged successfully'', d))))"

text \<open>\<^verbatim>\<open>POST /api/sensors/:id/maintenance\<close>.\<close>

definition post_sensor_maintenance :: "int \<Rightarrow> (rat \<Rightarrow> jsnum) \<Rightarrow> user \<Rightarrow> string \<Rightarrow> string \<Rightarrow> string \<Rightarrow> sensor option \<Rightarrow> error + (string \<times> sensor document)" where
  "post_sensor_maintenance now rnd u ty descr username found =
    (case requireAdmin (Some u) of
       Some e \<Rightarrow> Inl e
     | None \<Rightarrow>
        if \<not> 1 \<le> length ty then Inl (AppError ''Maintenance type is required'' 400)
        else if \<not> (1 \<le> length descr \<and> length descr \<le> 500)
          then Inl (AppError ''Maintenance description must be between 1 and 500 characters'' 400)
        else
          (case found of
             None \<Rightarrow> Inl (AppError ''Sensor not found'' 404)
           | Some s \<Rightarrow>
              (case addMaintenanceRecord now rnd ty descr username (hydrate s) of
                 Inl e \<Rightarrow> Inl e
               | Inr d \<Rightarrow> Inr (''Maintenance record added successfully'', d))))"

text \<open>The seed data's waste bin monitor (85 of 80 percent), as the seeder constructs it:
  every field of the sample is given to the constructor.\<close>

definition bin_sensor :: sensor where
  "bin_sensor =
    \<lparr>name = ''Waste Bin Level Monitor'', sensor_type = ''bin-level'', deviceId = ''BIN001'',
     unit_name = ''%'', currentValue = Fin 85, thresholdValue = Fin 80, status = Normal,
     isActive = True, lastReading_value = None, lastReading_timestamp = 0,
     batteryLevel = Some 45, signalStrength = Some 78, maintenanceHistory = [],
     alerts = [], dataPoints = []\<rparr>"

definition new_paths :: "string set" where
  "new_paths = {''name'', ''type'', ''deviceId'', ''currentValue'', ''thresholdValue'', ''unit''}"

definition admin :: user where
  "admin = \<lparr>user_id = 1, user_role = RoleAdmin\<rparr>"

section \<open>Complaints\<close>

datatype cstatus = Pending | InProgress | Resolved | Closed

text \<open>
  The complaint schema (images, tags, estimated resolution time and the embedded feedback
  are read by no code path and left out). \<open>createdAt\<close> is set by Mongoose's timestamps
  when the document is first saved.
\<close>

record complaint =
  title :: string
  description :: string
  category :: string
  c_status :: cstatus
  priority :: string
  userId :: objectId
  assignedTo :: "objectId option"
  location :: "string option"
  adminResponse :: "(string \<times> objectId \<times> int) option"
  resolutionNotes :: "string option"
  actualResolutionTime :: "int option"
  isUrgent :: bool
  escalationLevel :: int
  createdAt :: "int option"

text \<open>The virtual \<^verbatim>\<open>ageInDays\<close>: \<open>None\<close> is the NaN of a missing \<^verbatim>\<open>createdAt\<close>.\<close>

definition ageInDays :: "int \<Rightarrow> complaint \<Rightarrow> int option" where
  "ageInDays now c = (case createdAt c of None \<Rightarrow> None | Some t \<Rightarrow> Some ((now - t) div 86400000))"

text \<open>\<^verbatim>\<open>complaintSchema.pre('save')\<close>; \<^verbatim>\<open>this.ageInDays || 0\<close> turns NaN (and 0) into 0.\<close>

definition complaint_pre_save :: "int \<Rightarrow> complaint document \<Rightarrow> error + complaint document" where
  "complaint_pre_save now d =
    (let d1 =
       (if isModified ''status'' d \<and> c_status (doc d) = Resolved
        then d\<lparr>doc := (doc d)\<lparr>actualResolutionTime := Some now\<rparr>\<rparr>
        else d);
         age = (case ageInDays now (doc d1) of None \<Rightarrow> 0 | Some a \<Rightarrow> a);
         d2 =
       (if age \<ge> 7 \<and> priority (doc d1) = ''high'' \<and> c_status (doc d1) = Pending
        then d1\<lparr>doc := (doc d1)\<lparr>escalationLevel := min 3 (age div 7)\<rparr>\<rparr>
        else d1)
     in Inr d2)"

definition complaint_save :: "int \<Rightarrow> complaint document \<Rightarrow> error + complaint document" where
  "complaint_save now d =
    (case complaint_pre_save now d of Inl e \<Rightarrow> Inl e | Inr d' \<Rightarrow> Inr (saved d'))"

subsection \<open>Instance methods\<close>

definition escalate :: "int \<Rightarrow> complaint document \<Rightarrow> error + complaint document" where
  "escalate now d =
    (let d1 = d\<lparr>doc := (doc d)\<lparr>escalationLevel := min 3 (escalationLevel (doc d) + 1)\<rparr>\<rparr>;
         d2 = (if escalationLevel (doc d1) \<ge> 2 then d1\<lparr>doc := (doc d1)\<lparr>isUrgent := True\<rparr>\<rparr> else d1)
     in complaint_save now d2)"

definition addAdminResponse :: "int \<Rightarrow> string \<Rightarrow> objectId \<Rightarrow> complaint document \<Rightarrow> error + complaint document" where
  "addAdminResponse now msg adminId d =
    complaint_save now (d\<lparr>doc := (doc d)\<lparr>adminResponse := Some (msg, adminId, now)\<rparr>\<rparr>)"

definition resolve :: "int \<Rightarrow> string option \<Rightarrow> objectId option \<Rightarrow> complaint document \<Rightarrow> error + complaint document" where
  "resolve now notes adminId d =
    (let d1 = d\<lparr>doc := (doc d)\<lparr>c_status := Resolved\<rparr>,
                  modifiedPaths := markModified ''status'' (c_status (doc d) = Resolved) d\<rparr>;
         d2 = d1\<lparr>doc := (doc d1)\<lparr>resolutionNotes := notes, actualResolutionTime := Some now\<rparr>\<rparr>;
         d3 = (case adminId of None \<Rightarrow> d2 | Some a \<Rightarrow> d2\<lparr>doc := (doc d2)\<lparr>assignedTo := Some a\<rparr>\<rparr>)
     in complaint_save now d3)"

subsection \<open>Routes of \<^verbatim>\<open>/api/complaints\<close>\<close>

record complaint_body =
  cb_title :: string
  cb_description :: string
  cb_category :: string
  cb_priority :: "string option"
  cb_location :: "string option"
  cb_userId :: "objectId option"

definition categories :: "string list" where
  "categories = [''maintenance'', ''cleanliness'', ''security'', ''other'']"

definition priorities :: "string list" where
  "priorities = [''low'', ''medium'', ''high'']"

definition validateComplaint :: "complaint_body \<Rightarrow> string option" where
  "validateComplaint b =
    (if \<not> (1 \<le> length (cb_title b) \<and> length (cb_title b) \<le> 200)
       then Some ''Title must be between 1 and 200 characters''
     else if \<not> (1 \<le> length (cb_description b) \<and> length (cb_description b) \<le> 1000)
       then Some ''Description must be between 1 and 1000 characters''
     else if cb_category b \<notin> set categories then Some ''Invalid category''
     else if (case cb_priority b of None \<Rightarrow> False | Some p \<Rightarrow> p \<notin> set priorities)
       then Some ''Invalid priority level''
     else None)"

text \<open>
  \<^verbatim>\<open>new Complaint(data).save()\<close>, as the create route and the seeder do: the constructor
  marks the paths it is given, the timestamps set \<^verbatim>\<open>createdAt\<close>.
\<close>

definition new_complaint :: "int \<Rightarrow> complaint \<Rightarrow> string set \<Rightarrow> error + complaint document" where
  "new_complaint now c given = complaint_save now (construct (c\<lparr>createdAt := Some now\<rparr>) given)"

text \<open>\<^verbatim>\<open>POST /api/complaints\<close>: the status is the schema's default, whatever the body says.\<close>

definition post_complaint :: "int \<Rightarrow> user \<Rightarrow> complaint_body \<Rightarrow> error + (string \<times> complaint document)" where
  "post_complaint now u b =
    (case validateComplaint b of
       Some m \<Rightarrow> Inl (AppError m 400)
     | None \<Rightarrow>
        (case new_complaint now
                \<lparr>title = cb_title b, description = cb_description b, category = cb_category b,
                 c_status = Pending,
                 priority = (case cb_priority b of None \<Rightarrow> ''medium'' | Some p \<Rightarrow> p),
                 userId = user_id u, assignedTo = None, location = cb_location b,
                 adminResponse = None, resolutionNotes = None, actualResolutionTime = None,
                 isUrgent = False, escalationLevel = 0, createdAt = None\<rparr>
                {''title'', ''description'', ''category'', ''priority'', ''location'', ''userId''} of
           Inl e \<Rightarrow> Inl e
         | Inr d \<Rightarrow> Inr (''Complaint created successfully'', d)))"

text \<open>\<^verbatim>\<open>PUT /api/complaints/:id\<close>.\<close>

definition put_complaint :: "int \<Rightarrow> user \<Rightarrow> complaint_body \<Rightarrow> complaint option \<Rightarrow> error + (string \<times> complaint document)" where
  "put_complaint now u b found =
    (case requireOwnershipOrAdmin (Some u) (cb_userId b) of
       Some e \<Rightarrow> Inl e
     | None \<Rightarrow>
        (case validateComplaint b of
           Some m \<Rightarrow> Inl (AppError m 400)
         | None \<Rightarrow>
            (case found of
               None \<Rightarrow> Inl (AppError ''Complaint not found'' 404)
             | Some c \<Rightarrow>
                if c_status c = Resolved \<or> c_status c = Closed
                then Inl (AppError ''Cannot update resolved or closed complaints'' 400)
                else
                  (let d0 = hydrate c;
                       d1 = d0\<lparr>doc := (doc d0)\<lparr>title := cb_title b, description := cb_description b,
                                                category := cb_category b\<rparr>\<rparr>;
                       d2 = (case cb_priority b of None \<Rightarrow> d1
                             | Some p \<Rightarrow> d1\<lparr>doc := (doc d1)\<lparr>priority := p\<rparr>\<rparr>);
                       d3 = (case cb_location b of None \<Rightarrow> d2
                             | Some l \<Rightarrow> d2\<lparr>doc := (doc d2)\<lparr>location := Some l\<rparr>\<rparr>)
                   in case complaint_save now d3 of
                        Inl e \<Rightarrow> Inl e
                      | Inr d \<Rightarrow> Inr (''Complaint updated successfully'', d)))))"

text \<open>\<^verbatim>\<open>DELETE /api/complaints/:id\<close>: success removes the record.\<close>

definition delete_complaint :: "user \<Rightarrow> objectId option \<Rightarrow> complaint option \<Rightarrow> error + string" where
  "delete_complaint u given found =
    (case requireOwnershipOrAdmin (Some u) given of
       Some e \<Rightarrow> Inl e
     | None \<Rightarrow>
        (case found of
           None \<Rightarrow> Inl (AppError ''Complaint not found'' 404)
         | Some c \<Rightarrow>
            if c_status c \<noteq> Pending then Inl (AppError ''Can only delete pending complaints'' 400)
            else Inr ''Complaint deleted successfully''))"

text \<open>\<^verbatim>\<open>POST /api/complaints/:id/respond\<close>.\<close>

definition post_complaint_respond :: "int \<Rightarrow> user \<Rightarrow> string \<Rightarrow> complaint option \<Rightarrow> error + (string \<times> complaint document)" where
  "post_complaint_respond now u msg found =
    (case requireAdmin (Some u) of
       Some e \<Rightarrow> Inl e
     | None \<Rightarrow>
        if \<not> (1 \<le> length msg \<and> length msg \<le> 500)
        then Inl (AppError ''Response message must be between 1 and 500 characters'' 400)
        else
          (case found of
             None \<Rightarrow> Inl (AppError ''Complaint not found'' 404)
           | Some c \<Rightarrow>
              (case addAdminResponse now msg (user_id u) (hydrate c) of
                 Inl e \<Rightarrow> Inl e
               | Inr d \<Rightarrow> Inr (''Response added successfully'', d))))"

text \<open>\<^verbatim>\<open>POST /api/complaints/:id/resolve\<close>: the only status refused is \<^verbatim>\<open>resolved\<close>.\<close>

definition post_complaint_resolve :: "int \<Rightarrow> user \<Rightarrow> string option \<Rightarrow> complaint option \<Rightarrow> error + (string \<times> complaint document)" where
  "post_complaint_resolve now u notes found =
    (case requireAdmin (Some u) of
       Some e \<Rightarrow> Inl e
     | None \<Rightarrow>
        if (case notes of None \<Rightarrow> False | Some n \<Rightarrow> \<not> length n \<le> 500)
        then Inl (AppError ''Resolution notes cannot exceed 500 characters'' 400)
        else
          (case found of
             None \<Rightarrow> Inl (AppError ''Complaint not found'' 404)
           | Some c \<Rightarrow>
              if c_status c = Resolved then Inl (AppError ''Complaint is already resolved'' 400)
              else
                (case resolve now notes (Some (user_id u)) (hydrate c) of
                   Inl e \<Rightarrow> Inl e
                 | Inr d \<Rightarrow> Inr (''Complaint resolved successfully'', d))))"

text \<open>\<^verbatim>\<open>POST /api/complaints/:id/escalate\<close>.\<close>

definition post_complaint_escalate :: "int \<Rightarrow> user \<Rightarrow> complaint option \<Rightarrow> error + (string \<times> complaint document)" where
  "post_complaint_escalate now u found =
    (case requireAdmin (Some u) of
       Some e \<Rightarrow> Inl e
     | None \<Rightarrow>
        (case found of
           None \<Rightarrow> Inl (AppError ''Complaint not found'' 404)
         | Some c \<Rightarrow>
            if c_status c = Resolved \<or> c_status c = Closed
            then Inl (AppError ''Cannot escalate resolved or closed complaints'' 400)
            else
              (case escalate now (hydrate c) of
                 Inl e \<Rightarrow> Inl e
               | Inr d \<Rightarrow> Inr (''Complaint escalated successfully'', d))))"

text \<open>The stored complaint after a request that answered \<open>r\<close>.\<close>

definition complaint_stored :: "complaint \<Rightarrow> error + (string \<times> complaint document) \<Rightarrow> complaint" where
  "complaint_stored c r = (case r of Inl e \<Rightarrow> c | Inr (m, d) \<Rightarrow> doc d)"

section \<open>Feedback\<close>

record feedback =
  complaintId :: objectId
  f_userId :: objectId
  rating :: int
  message :: string
  f_category :: string
  isAnonymous :: bool
  helpfulCount :: int
  isFlagged :: bool
  flaggedReason :: "string option"
  f_adminResponse :: "(string \<times> objectId \<times> int) option"
  f_createdAt :: int

text \<open>
  The two collections the feedback hook reads: complaints by id, and the feedback records
  with their ids in insertion order. \<^verbatim>\<open>findOne({complaintId, userId})\<close> is the first
  record of that pair.
\<close>

type_synonym complaints = "objectId \<rightharpoonup> complaint"
type_synonym feedbacks = "(objectId \<times> feedback) list"

definition findOne :: "objectId \<Rightarrow> objectId \<Rightarrow> feedbacks \<Rightarrow> (objectId \<times> feedback) option" where
  "findOne cid uid fs = find (\<lambda>(i, f). complaintId f = cid \<and> f_userId f = uid) fs"

text \<open>\<^verbatim>\<open>feedbackSchema.pre('save')\<close>: the checks run for a new document only.\<close>

definition feedback_pre_save :: "complaints \<Rightarrow> feedbacks \<Rightarrow> feedback document \<Rightarrow> error + feedback document" where
  "feedback_pre_save cs fs d =
    (if isNew d then
       (case cs (complaintId (doc d)) of
          None \<Rightarrow> Inl (HookError ''Complaint not found'')
        | Some c \<Rightarrow>
           if c_status c \<noteq> Resolved
           then Inl (HookError ''Feedback can only be submitted for resolved complaints'')
           else
             (case findOne (complaintId (doc d)) (f_userId (doc d)) fs of
                Some x \<Rightarrow> Inl (HookError ''You have already submitted feedback for this complaint'')
              | None \<Rightarrow> Inr d))
     else Inr d)"

definition feedback_save :: "complaints \<Rightarrow> feedbacks \<Rightarrow> feedback document \<Rightarrow> error + feedback document" where
  "feedback_save cs fs d =
    (case feedback_pre_save cs fs d of Inl e \<Rightarrow> Inl e | Inr d' \<Rightarrow> Inr (saved d'))"

subsection \<open>Routes of \<^verbatim>\<open>/api/feedback\<close>\<close>

record feedback_body =
  fb_complaintId :: objectId
  fb_rating :: int
  fb_message :: string
  fb_category :: "string option"
  fb_isAnonymous :: "bool option"
  fb_userId :: "objectId option"

definition feedback_categories :: "string list" where
  "feedback_categories = [''resolution-quality'', ''response-time'', ''communication'', ''overall-satisfaction'']"

definition validateFeedback :: "feedback_body \<Rightarrow> string option" where
  "validateFeedback b =
    (if \<not> (1 \<le> fb_rating b \<and> fb_rating b \<le> 5) then Some ''Rating must be between 1 and 5''
     else if \<not> (1 \<le> length (fb_message b) \<and> length (fb_message b) \<le> 500)
       then Some ''Feedback message must be between 1 and 500 characters''
     else if (case fb_category b of None \<Rightarrow> False | Some c \<Rightarrow> c \<notin> set feedback_categories)
       then Some ''Invalid feedback category''
     else None)"

text \<open>\<^verbatim>\<open>new Feedback(data).save()\<close>, as the create route and the seeder do.\<close>

definition new_feedback :: "int \<Rightarrow> complaints \<Rightarrow> feedbacks \<Rightarrow> feedback \<Rightarrow> error + feedback document" where
  "new_feedback now cs fs f =
    feedback_save cs fs
      (construct (f\<lparr>f_createdAt := now\<rparr>) {''complaintId'', ''userId'', ''rating'', ''message'', ''category''})"

text \<open>\<^verbatim>\<open>POST /api/feedback\<close>.\<close>

definition post_feedback :: "int \<Rightarrow> complaints \<Rightarrow> feedbacks \<Rightarrow> user \<Rightarrow> feedback_body \<Rightarrow> error + (string \<times> feedback document)" where
  "post_feedback now cs fs u b =
    (case validateFeedback b of
       Some m \<Rightarrow> Inl (AppError m 400)
     | None \<Rightarrow>
        (case cs (fb_complaintId b) of
           None \<Rightarrow> Inl (AppError ''Complaint not found'' 404)
         | Some c \<Rightarrow>
            if c_status c \<noteq> Resolved
            then Inl (AppError ''Feedback can only be submitted for resolved complaints'' 400)
            else if userId c \<noteq> user_id u
            then Inl (AppError ''You can only provide feedback for your own complaints'' 403)
            else
              (case findOne (fb_complaintId b) (user_id u) fs of
                 Some x \<Rightarrow> Inl (AppError ''You have already submitted feedback for this complaint'' 400)
               | None \<Rightarrow>
                  (case new_feedback now cs fs
                          \<lparr>complaintId = fb_complaintId b, f_userId = user_id u,
                           rating = fb_rating b, message = fb_message b,
                           f_category = (case fb_category b of None \<Rightarrow> ''overall-satisfaction'' | Some c \<Rightarrow> c),
                           isAnonymous = (case fb_isAnonymous b of None \<Rightarrow> False | Some a \<Rightarrow> a),
                           helpfulCount = 0, isFlagged = False, flaggedReason = None,
                           f_adminResponse = None, f_createdAt = now\<rparr> of
                     Inl e \<Rightarrow> Inl e
                   | Inr d \<Rightarrow> Inr (''Feedback submitted successfully'', d)))))"

text \<open>\<^verbatim>\<open>PUT /api/feedback/:id\<close>: within one hour of submission; the complaint and the
  user of the record are not among the fields it assigns.\<close>

definition put_feedback :: "int \<Rightarrow> complaints \<Rightarrow> feedbacks \<Rightarrow> user \<Rightarrow> feedback_body \<Rightarrow> feedback option \<Rightarrow> error + (string \<times> feedback document)" where
  "put_feedback now cs fs u b found =
    (case requireOwnershipOrAdmin (Some u) (fb_userId b) of
       Some e \<Rightarrow> Inl e
     | None \<Rightarrow>
        (case validateFeedback b of
           Some m \<Rightarrow> Inl (AppError m 400)
         | None \<Rightarrow>
            (case found of
               None \<Rightarrow> Inl (AppError ''Feedback not found'' 404)
             | Some f \<Rightarrow>
                if f_createdAt f < now - 60 * 60 * 1000
                then Inl (AppError ''Feedback can only be updated within 1 hour of submission'' 400)
                else
                  (let d0 = hydrate f;
                       d1 = d0\<lparr>doc := (doc d0)\<lparr>rating := fb_rating b, message := fb_message b\<rparr>\<rparr>;
                       d2 = (case fb_category b of None \<Rightarrow> d1
                             | Some c \<Rightarrow> d1\<lparr>doc := (doc d1)\<lparr>f_category := c\<rparr>\<rparr>);
                       d3 = (case fb_isAnonymous b of None \<Rightarrow> d2
                             | Some a \<Rightarrow> d2\<lparr>doc := (doc d2)\<lparr>isAnonymous := a\<rparr>\<rparr>)
                   in case feedback_save cs fs d3 of
                        Inl e \<Rightarrow> Inl e
                      | Inr d \<Rightarrow> Inr (''Feedback updated successfully'', d)))))"

text \<open>\<^verbatim>\<open>DELETE /api/feedback/:id\<close>.\<close>

definition delete_feedback :: "int \<Rightarrow> user \<Rightarrow> objectId option \<Rightarrow> feedback option \<Rightarrow> error + string" where
  "delete_feedback now u given found =
    (case requireOwnershipOrAdmin (Some u) given of
       Some e \<Rightarrow> Inl e
     | None \<Rightarrow>
        (case found of
           None \<Rightarrow> Inl (AppError ''Feedback not found'' 404)
         | Some f \<Rightarrow>
            if f_createdAt f < now - 60 * 60 * 1000 \<and> user_role u \<noteq> RoleAdmin
            then Inl (AppError ''Feedback can only be deleted within 1 hour of submission'' 400)
            else Inr ''Feedback deleted successfully''))"

text \<open>\<^verbatim>\<open>POST /api/feedback/:id/helpful\<close>, \<^verbatim>\<open>/flag\<close> and \<^verbatim>\<open>/respond\<close>, with the instance methods
  \<^verbatim>\<open>markHelpful\<close>, \<^verbatim>\<open>flag\<close> and \<^verbatim>\<open>addAdminResponse\<close> they call.\<close>

definition post_feedback_helpful :: "complaints \<Rightarrow> feedbacks \<Rightarrow> feedback option \<Rightarrow> error + (string \<times> feedback document)" where
  "post_feedback_helpful cs fs found =
    (case found of
       None \<Rightarrow> Inl (AppError ''Feedback not found'' 404)
     | Some f \<Rightarrow>
        (let d0 = hydrate f in
         case feedback_save cs fs (d0\<lparr>doc := (doc d0)\<lparr>helpfulCount := helpfulCount (doc d0) + 1\<rparr>\<rparr>) of
           Inl e \<Rightarrow> Inl e
         | Inr d \<Rightarrow> Inr (''Feedback marked as helpful'', d)))"

definition post_feedback_flag :: "complaints \<Rightarrow> feedbacks \<Rightarrow> user \<Rightarrow> string \<Rightarrow> feedback option \<Rightarrow> error + (string \<times> feedback document)" where
  "post_feedback_flag cs fs u reason found =
    (case requireAdmin (Some u) of
       Some e \<Rightarrow> Inl e
     | None \<Rightarrow>
        if \<not> (1 \<le> length reason \<and> length reason \<le> 200)
        then Inl (AppError ''Flag reason must be between 1 and 200 characters'' 400)
        else
          (case found of
             None \<Rightarrow> Inl (AppError ''Feedback not found'' 404)
           | Some f \<Rightarrow>
              (let d0 = hydrate f in
               case feedback_save cs fs (d0\<lparr>doc := (doc d0)\<lparr>isFlagged := True, flaggedReason := Some reason\<rparr>\<rparr>) of
                 Inl e \<Rightarrow> Inl e
               | Inr d \<Rightarrow> Inr (''Feedback flagged successfully'', d))))"

definition post_feedback_respond :: "int \<Rightarrow> complaints \<Rightarrow> feedbacks \<Rightarrow> user \<Rightarrow> string \<Rightarrow> feedback option \<Rightarrow> error + (string \<times> feedback document)" where
  "post_feedback_respond now cs fs u msg found =
    (case requireAdmin (Some u) of
       Some e \<Rightarrow> Inl e
     | None \<Rightarrow>
        if \<not> (1 \<le> length msg \<and> length msg \<le> 500)
        then Inl (AppError ''Response message must be between 1 and 500 characters'' 400)
        else
          (case found of
             None \<Rightarrow> Inl (AppError ''Feedback not found'' 404)
           | Some f \<Rightarrow>
              (let d0 = hydrate f in
               case feedback_save cs fs
                      (d0\<lparr>doc := (doc d0)\<lparr>f_adminResponse :=
                          Some (msg, (user_id u), now)\<rparr>\<rparr>) of
                 Inl e \<Rightarrow> Inl e
               | Inr d \<Rightarrow> Inr (''Response added successfully'', d))))"

section \<open>The application state and its requests\<close>

text \<open>
  The stored complaints and feedback records, with the next fresh id of either collection
  (\<^verbatim>\<open>ObjectId\<close>s are unique). A request is handled at the time \<open>now\<close> it carries; a request
  that is answered with an error writes nothing. \<open>SeedComplaint\<close> and \<open>SeedFeedback\<close> are the
  seeder's \<^verbatim>\<open>new Model(data).save()\<close>, which goes through the hooks but through no route.
\<close>

record app_state =
  complaintsDb :: complaints
  nextComplaintId :: objectId
  feedbackDb :: feedbacks
  nextFeedbackId :: objectId

definition init_state :: app_state where
  "init_state = \<lparr>complaintsDb = Map.empty, nextComplaintId = 0, feedbackDb = [], nextFeedbackId = 0\<rparr>"

datatype request =
    CreateComplaint user complaint_body
  | SeedComplaint complaint
  | UpdateComplaint user objectId complaint_body
  | DeleteComplaint user objectId "objectId option"
  | RespondComplaint user objectId string
  | ResolveComplaint user objectId "string option"
  | EscalateComplaint user objectId
  | CreateFeedback user feedback_body
  | SeedFeedback feedback
  | UpdateFeedback user objectId feedback_body
  | DeleteFeedback user objectId "objectId option"
  | HelpfulFeedback user objectId
  | FlagFeedback user objectId string
  | RespondFeedback user objectId string

definition insert_complaint :: "error + (string \<times> complaint document) \<Rightarrow> app_state \<Rightarrow> app_state" where
  "insert_complaint r st =
    (case r of
       Inl e \<Rightarrow> st
     | Inr (m, d) \<Rightarrow>
        st\<lparr>complaintsDb := (complaintsDb st)(nextComplaintId st \<mapsto> doc d),
           nextComplaintId := Suc (nextComplaintId st)\<rparr>)"

definition write_complaint :: "objectId \<Rightarrow> error + (string \<times> complaint document) \<Rightarrow> app_state \<Rightarrow> app_state" where
  "write_complaint i r st =
    (case r of
       Inl e \<Rightarrow> st
     | Inr (m, d) \<Rightarrow> st\<lparr>complaintsDb := (complaintsDb st)(i \<mapsto> doc d)\<rparr>)"

definition insert_feedback :: "error + (string \<times> feedback document) \<Rightarrow> app_state \<Rightarrow> app_state" where
  "insert_feedback r st =
    (case r of
       Inl e \<Rightarrow> st
     | Inr (m, d) \<Rightarrow>
        st\<lparr>feedbackDb := feedbackDb st @ [(nextFeedbackId st, doc d)],
           nextFeedbackId := Suc (nextFeedbackId st)\<rparr>)"

definition write_feedback :: "objectId \<Rightarrow> error + (string \<times> feedback document) \<Rightarrow> app_state \<Rightarrow> app_state" where
  "write_feedback i r st =
    (case r of
       Inl e \<Rightarrow> st
     | Inr (m, d) \<Rightarrow>
        st\<lparr>feedbackDb := map (\<lambda>(j, f). if j = i then (j, doc d) else (j, f)) (feedbackDb st)\<rparr>)"

definition labelled :: "string \<Rightarrow> error + 'a \<Rightarrow> error + (string \<times> 'a)" where
  "labelled m r = (case r of Inl e \<Rightarrow> Inl e | Inr d \<Rightarrow> Inr (m, d))"

fun handle :: "int \<Rightarrow> request \<Rightarrow> app_state \<Rightarrow> app_state" where
  "handle now (CreateComplaint u b) st = insert_complaint (post_complaint now u b) st"
| "handle now (SeedComplaint c) st =
     insert_complaint
       (labelled ''seeded'' (new_complaint now c
          {''title'', ''description'', ''category'', ''priority'', ''status'', ''userId''})) st"
| "handle now (UpdateComplaint u i b) st =
     write_complaint i (put_complaint now u b (complaintsDb st i)) st"
| "handle now (DeleteComplaint u i given) st =
     (case delete_complaint u given (complaintsDb st i) of
        Inl e \<Rightarrow> st
      | Inr m \<Rightarrow> st\<lparr>complaintsDb := (complaintsDb st)(i := None)\<rparr>)"
| "handle now (RespondComplaint u i msg) st =
     write_complaint i (post_complaint_respond now u msg (complaintsDb st i)) st"
| "handle now (ResolveComplaint u i notes) st =
     write_complaint i (post_complaint_resolve now u notes (complaintsDb st i)) st"
| "handle now (EscalateComplaint u i) st =
     write_complaint i (post_complaint_escalate now u (complaintsDb st i)) st"
| "handle now (CreateFeedback u b) st =
     insert_feedback (post_feedback now (complaintsDb st) (feedbackDb st) u b) st"
| "handle now (SeedFeedback f) st =
     insert_feedback (labelled ''seeded'' (new_feedback now (complaintsDb st) (feedbackDb st) f)) st"
| "handle now (UpdateFeedback u i b) st =
     write_feedback i
       (put_feedback now (complaintsDb st) (feedbackDb st) u b (map_of (feedbackDb st) i)) st"
| "handle now (DeleteFeedback u i given) st =
     (case delete_feedback now u given (map_of (feedbackDb st) i) of
        Inl e \<Rightarrow> st
      | Inr m \<Rightarrow> st\<lparr>feedbackDb := filter (\<lambda>(j, f). j \<noteq> i) (feedbackDb st)\<rparr>)"
| "handle now (HelpfulFeedback u i) st =
     write_feedback i
       (post_feedback_helpful (complaintsDb st) (feedbackDb st) (map_of (feedbackDb st) i)) st"
| "handle now (FlagFeedback u i reason) st =
     write_feedback i
       (post_feedback_flag (complaintsDb st) (feedbackDb st) u reason (map_of (feedbackDb st) i)) st"
| "handle now (RespondFeedback u i msg) st =
     write_feedback i
       (post_feedback_respond now (complaintsDb st) (feedbackDb st) u msg (map_of (feedbackDb st) i)) st"

fun run :: "(int \<times> request) list \<Rightarrow> app_state \<Rightarrow> app_state" where
  "run [] st = st"
| "run ((now, r) # rs) st = run rs (handle now r st)"

section \<open>Invariants of the stored data\<close>

text \<open>
  The last reading of a stored sensor agrees with its current value: the hook writes the
  snapshot whenever the current value is modified, and an assignment of an equal value
  (\<^verbatim>\<open>===\<close>) is the only one that does not mark it modified.
\<close>

definition snapshot_agrees :: "sensor \<Rightarrow> bool" where
  "snapshot_agrees s =
    (lastReading_value s \<noteq> None \<and> js_strict_eq (the (lastReading_value s)) (currentValue s))"

text \<open>Ids are fresh: every stored id is below the next one, and no two feedback records
  share an id.\<close>

definition feedback_ids :: "feedbacks \<Rightarrow> objectId list" where
  "feedback_ids fs = map fst fs"

definition wf_state :: "app_state \<Rightarrow> bool" where
  "wf_state st =
    ((\<forall>j. complaintsDb st j \<noteq> None \<longrightarrow> j < nextComplaintId st) \<and>
     (\<forall>j \<in> set (feedback_ids (feedbackDb st)). j < nextFeedbackId st) \<and>
     distinct (feedback_ids (feedbackDb st)))"

text \<open>The (complaint, user) pair of a feedback record; whether its complaint is stored and
  resolved; and the invariant of the feedback collection: no pair occurs twice, and every
  record is on a resolved complaint.\<close>

definition fb_key :: "objectId \<times> feedback \<Rightarrow> objectId \<times> objectId" where
  "fb_key x = (complaintId (snd x), f_userId (snd x))"

definition on_resolved :: "complaints \<Rightarrow> objectId \<times> feedback \<Rightarrow> bool" where
  "on_resolved cs x =
    (case cs (complaintId (snd x)) of None \<Rightarrow> False | Some c \<Rightarrow> c_status c = Resolved)"

definition feedback_inv :: "app_state \<Rightarrow> bool" where
  "feedback_inv st =
    (distinct (map fb_key (feedbackDb st)) \<and>
     list_all (on_resolved (complaintsDb st)) (feedbackDb st))"

section \<open>Sample data\<close>

definition day :: int where
  "day = 86400000"

definition resident :: user where
  "resident = \<lparr>user_id = 2, user_role = RoleUser\<rparr>"

definition leak_body :: complaint_body where
  "leak_body =
    \<lparr>cb_title = ''Water leak'', cb_description = ''Leak under the sink'',
     cb_category = ''maintenance'', cb_priority = Some ''high'', cb_location = None,
     cb_userId = None\<rparr>"

definition closed_complaint :: complaint where
  "closed_complaint =
    \<lparr>title = ''Broken light'', description = ''Corridor light is out'', category = ''maintenance'',
     c_status = Closed, priority = ''medium'', userId = 2, assignedTo = None, location = None,
     adminResponse = None, resolutionNotes = None, actualResolutionTime = None,
     isUrgent = False, escalationLevel = 0, createdAt = None\<rparr>"

definition thanks_body :: feedback_body where
  "thanks_body =
    \<lparr>fb_complaintId = 0, fb_rating = 5, fb_message = ''Fixed quickly'', fb_category = None,
     fb_isAnonymous = None, fb_userId = None\<rparr>"

definition retired_bin :: sensor where
  "retired_bin = bin_sensor\<lparr>isActive := False\<rparr>"

definition full_bin :: sensor where
  "full_bin = bin_sensor\<lparr>lastReading_value := Some (Fin 85),
                          dataPoints := replicate 1000 (Fin 85, 0)\<rparr>"

text \<open>A complaint of high priority, escalated by hand three times on its second day.\<close>

definition escalated_thrice :: "(int \<times> request) list" where
  "escalated_thrice =
    [(0, CreateComplaint resident leak_body), (day, EscalateComplaint admin 0),
     (day, EscalateComplaint admin 0), (day, EscalateComplaint admin 0)]"

text \<open>A complaint that is resolved, and what is asked of it afterwards.\<close>

definition resolved_once :: "(int \<times> request) list" where
  "resolved_once =
    [(0, CreateComplaint resident leak_body), (10, ResolveComplaint admin 0 (Some ''Pipe replaced''))]"

definition later_requests :: "(int \<times> request) list" where
  "later_requests =
    [(20, ResolveComplaint admin 0 None), (30, RespondComplaint admin 0 ''Closed out''),
     (40, UpdateComplaint resident 0 leak_body), (50, EscalateComplaint admin 0),
     (60, DeleteComplaint resident 0 None)]"

text \<open>Feedback before the complaint is resolved, after it, and a second time.\<close>

definition feedback_twice :: "(int \<times> request) list" where
  "feedback_twice =
    [(0, CreateComplaint resident leak_body), (5, CreateFeedback resident thanks_body),
     (10, ResolveComplaint admin 0 None), (20, CreateFeedback resident thanks_body),
     (30, CreateFeedback resident thanks_body)]"

section \<open>Basic facts\<close>

lemma js_strict_eq_trans: "js_strict_eq a b \<Longrightarrow> js_strict_eq b c \<Longrightarrow> js_strict_eq a c"
  by (auto simp: js_strict_eq_def)

lemma js_strict_eq_refl: "a \<noteq> NaN \<Longrightarrow> js_strict_eq a a"
  by (simp add: js_strict_eq_def)

lemma js_strict_eq_sym: "js_strict_eq a b \<Longrightarrow> js_strict_eq b a"
  by (auto simp: js_strict_eq_def)

lemma isModified_hydrate [simp]: "isModified p (hydrate x) = False"
  by (simp add: isModified_def hydrate_def)

lemma doc_hydrate [simp]: "doc (hydrate x) = x"
  by (simp add: hydrate_def)

lemma doc_saved [simp]: "doc (saved d) = doc d"
  by (simp add: saved_def)

lemma saved_hydrate [simp]: "saved (hydrate x) = hydrate x"
  by (simp add: saved_def hydrate_def)

lemma isModified_doc_update [simp]: "isModified p (d\<lparr>doc := x\<rparr>) = isModified p d"
  by (simp add: isModified_def)

lemma isNew_hydrate [simp]: "isNew (hydrate x) = False"
  by (simp add: hydrate_def)

lemma isNew_construct [simp]: "isNew (construct x ps) = True"
  by (simp add: construct_def)

lemma doc_construct [simp]: "doc (construct x ps) = x"
  by (simp add: construct_def)

lemma js_lt_iff_not_ge: "r \<noteq> NaN \<Longrightarrow> js_lt r (Fin c) \<longleftrightarrow> \<not> js_ge r (Fin c)"
  by (cases r) (auto simp: js_lt_def js_ge_def)

lemma sensor_save_Inr: "sensor_save now rnd d = Inr (saved (projr (sensor_pre_save now rnd d)))"
  by (simp add: sensor_save_def sensor_pre_save_def Let_def)

lemma sensor_save_unmodified:
  "\<not> isModified ''currentValue'' d \<Longrightarrow> \<not> isModified ''thresholdValue'' d \<Longrightarrow>
   sensor_save now rnd d = Inr (saved d)"
  by (simp add: sensor_save_def sensor_pre_save_def Let_def)

lemma sensor_save_fields:
  assumes "sensor_save now rnd d = Inr d'"
  shows "currentValue (doc d') = currentValue (doc d)"
    and "thresholdValue (doc d') = thresholdValue (doc d)"
    and "dataPoints (doc d') = dataPoints (doc d)"
    and "alerts (doc d') = alerts (doc d)"
    and "isActive (doc d') = isActive (doc d)"
    and "isNew d' = False" and "modifiedPaths d' = {}"
    and "lastReading_value (doc d') =
          (if isModified ''currentValue'' d then Some (currentValue (doc d)) else lastReading_value (doc d))"
  using assms
  by (auto simp: sensor_save_def sensor_pre_save_def Let_def saved_def isModified_def split: if_splits)

lemma sensor_save_agrees:
  assumes "sensor_save now rnd d = Inr d'"
    and "currentValue (doc d) \<noteq> NaN"
    and "isModified ''currentValue'' d \<or> snapshot_agrees (doc d)"
  shows "snapshot_agrees (doc d')"
  using assms sensor_save_fields[OF assms(1)]
  by (auto simp: snapshot_agrees_def js_strict_eq_refl split: option.splits)

section \<open>The status of a sensor\<close>

text \<open>
  C1, as amended. When a save finds the current or the threshold value modified, the status
  it stores is decided by the quotient \<open>r\<close> the hook computes: critical iff \<open>r >= 1.5\<close>,
  warning iff \<open>1.0 <= r < 1.5\<close>, normal iff not \<open>r >= 1.0\<close>; that is \<open>r < 1.0\<close> whenever
  \<open>r\<close> is a number, and it is also the status when \<open>r\<close> is NaN. The status is never
  offline. With 85 over 80 (a quotient binary64 holds exactly) the status is warning.
\<close>

theorem sensor_status_by_ratio:
  assumes "isModified ''currentValue'' d \<or> isModified ''thresholdValue'' d"
  shows "\<exists>d'. sensor_save now rnd d = Inr d' \<and>
     (let r = js_div rnd (currentValue (doc d)) (thresholdValue (doc d)); st = status (doc d') in
        (st = Critical \<longleftrightarrow> js_ge r (Fin (3 / 2))) \<and>
        (st = Warning \<longleftrightarrow> js_ge r (Fin 1) \<and> js_lt r (Fin (3 / 2))) \<and>
        (st = Normal \<longleftrightarrow> \<not> js_ge r (Fin 1)) \<and>
        (r \<noteq> NaN \<longrightarrow> (st = Normal \<longleftrightarrow> js_lt r (Fin 1))) \<and>
        st \<noteq> Offline \<and>
        (currentValue (doc d) = Fin 85 \<and> thresholdValue (doc d) = Fin 80 \<and>
         rnd (17 / 16) = Fin (17 / 16) \<longrightarrow> st = Warning))"
proof -
  define r where "r = js_div rnd (currentValue (doc d)) (thresholdValue (doc d))"
  have ge: "js_ge r (Fin (3 / 2)) \<Longrightarrow> js_ge r (Fin 1)"
    by (cases r) (auto simp: js_ge_def)
  have lt32: "r \<noteq> NaN \<Longrightarrow> js_lt r (Fin (3 / 2)) \<longleftrightarrow> \<not> js_ge r (Fin (3 / 2))"
    by (rule js_lt_iff_not_ge)
  have lt1: "r \<noteq> NaN \<Longrightarrow> js_lt r (Fin 1) \<longleftrightarrow> \<not> js_ge r (Fin 1)"
    by (rule js_lt_iff_not_ge)
  have nan: "r = NaN \<Longrightarrow> \<not> js_ge r (Fin 1)"
    by (simp add: js_ge_def)
  have ex: "currentValue (doc d) = Fin 85 \<Longrightarrow> thresholdValue (doc d) = Fin 80 \<Longrightarrow>
      rnd (17 / 16) = Fin (17 / 16) \<Longrightarrow> r = Fin (17 / 16)"
    by (simp add: r_def js_div_def)
  show ?thesis
    using assms ge lt32 lt1 nan ex
    unfolding sensor_save_def sensor_pre_save_def Let_def r_def[symmetric]
    by (cases "js_ge r (Fin (3 / 2))"; cases "js_ge r (Fin 1)"; cases "r = NaN")
       (auto simp: js_ge_def)
qed

text \<open>The seed's waste bin monitor, saved for the first time: 85 over 80 is a warning.\<close>

theorem sensor_status_by_ratio_witness:
  "isModified ''currentValue'' (construct bin_sensor new_paths) \<and>
   saved_status (sensor_save 0 Fin (construct bin_sensor new_paths)) = Some Warning"
  using sensor_status_by_ratio[of "construct bin_sensor new_paths" 0 Fin]
  by (auto simp: saved_status_def construct_def isModified_def new_paths_def bin_sensor_def Let_def)

text \<open>
  The claim as first stated (normal iff the ratio is below 1.0) fails for a sensor whose
  current and threshold values are both 0: the ratio is NaN, which is not below 1.0, and the
  status is normal.
\<close>

theorem sensor_status_nan_counterexample:
  "isModified ''currentValue''
     (construct (bin_sensor\<lparr>currentValue := Fin 0, thresholdValue := Fin 0\<rparr>) new_paths) \<and>
   saved_status
     (sensor_save 0 Fin
        (construct (bin_sensor\<lparr>currentValue := Fin 0, thresholdValue := Fin 0\<rparr>) new_paths))
     = Some Normal \<and>
   \<not> js_lt (js_div Fin (Fin 0) (Fin 0)) (Fin 1)"
  by (simp add: saved_status_def sensor_save_def sensor_pre_save_def construct_def isModified_def
        new_paths_def bin_sensor_def Let_def js_div_def js_ge_def js_lt_def saved_def)

text \<open>
  C10, as amended. A save of a sensor whose threshold is zero (of either sign) never
  fails. When it derives the status: a current value of zero gives normal (the ratio is
  NaN); a current value above zero gives critical when the threshold is \<^verbatim>\<open>+0\<close> (the ratio
  is \<^verbatim>\<open>+Infinity\<close>) and normal when the threshold is \<^verbatim>\<open>-0\<close> (the ratio is \<^verbatim>\<open>-Infinity\<close>).
\<close>

theorem zero_threshold_status:
  assumes "is_zero (thresholdValue (doc d))"
  shows "\<exists>d'. sensor_save now rnd d = Inr d' \<and>
     (isModified ''currentValue'' d \<or> isModified ''thresholdValue'' d \<longrightarrow>
        (is_zero (currentValue (doc d)) \<longrightarrow> status (doc d') = Normal) \<and>
        (js_lt (Fin 0) (currentValue (doc d)) \<and> thresholdValue (doc d) = Fin 0
           \<longrightarrow> status (doc d') = Critical) \<and>
        (js_lt (Fin 0) (currentValue (doc d)) \<and> thresholdValue (doc d) = NegZero
           \<longrightarrow> status (doc d') = Normal))"
proof -
  let ?c = "currentValue (doc d)" and ?t = "thresholdValue (doc d)"
  have z: "is_zero ?c \<Longrightarrow> js_div rnd ?c ?t = NaN"
    using assms by (cases ?c; cases ?t) (auto simp: js_div_def)
  have p: "js_lt (Fin 0) ?c \<Longrightarrow> ?t = Fin 0 \<Longrightarrow> js_div rnd ?c ?t = PosInf"
    by (cases ?c) (auto simp: js_div_def js_lt_def)
  have n: "js_lt (Fin 0) ?c \<Longrightarrow> ?t = NegZero \<Longrightarrow> js_div rnd ?c ?t = NegInf"
    by (cases ?c) (auto simp: js_div_def js_lt_def)
  show ?thesis
    using z p n
    by (auto simp: sensor_save_def sensor_pre_save_def Let_def js_ge_def)
qed

theorem zero_threshold_status_witness:
  "is_zero (Fin 0) \<and> js_lt (Fin 0) (Fin 5) \<and>
   saved_status
     (sensor_save 0 Fin
        (construct (bin_sensor\<lparr>currentValue := Fin 5, thresholdValue := Fin 0\<rparr>) new_paths))
     = Some Critical"
  using zero_threshold_status
    [of "construct (bin_sensor\<lparr>currentValue := Fin 5, thresholdValue := Fin 0\<rparr>) new_paths" 0 Fin]
  by (auto simp: saved_status_def construct_def isModified_def new_paths_def bin_sensor_def
        js_lt_def)

text \<open>
  The claim as first stated (a zero threshold and a current value above zero give critical)
  fails for the threshold \<^verbatim>\<open>-0\<close>, which is a zero (\<^verbatim>\<open>-0 === 0\<close>): 5 over \<^verbatim>\<open>-0\<close> is
  \<^verbatim>\<open>-Infinity\<close>, and the status is normal.
\<close>

theorem zero_threshold_negative_zero_counterexample:
  "js_strict_eq NegZero (Fin 0) \<and> js_lt (Fin 0) (Fin 5) \<and>
   saved_status
     (sensor_save 0 Fin
        (construct (bin_sensor\<lparr>currentValue := Fin 5, thresholdValue := NegZero\<rparr>) new_paths))
     = Some Normal"
  by (simp add: saved_status_def sensor_save_def sensor_pre_save_def construct_def isModified_def
        new_paths_def bin_sensor_def Let_def js_div_def js_ge_def js_lt_def js_strict_eq_def
        saved_def)

section \<open>The history of a sensor\<close>

lemma addDataPoint_result:
  assumes "v \<noteq> NaN" and "snapshot_agrees (doc d)"
  shows "\<exists>d' w. addDataPoint now rnd v d = Inr d' \<and>
      currentValue (doc d') = v \<and>
      lastReading_value (doc d') = Some w \<and> js_strict_eq w v \<and>
      dataPoints (doc d') =
        drop (length (dataPoints (doc d)) + 1 - 1000) (dataPoints (doc d) @ [(v, now)]) \<and>
      length (dataPoints (doc d')) = min 1000 (length (dataPoints (doc d)) + 1) \<and>
      last (dataPoints (doc d')) = (v, now) \<and>
      (length (dataPoints (doc d)) < 1000 \<longrightarrow>
         dataPoints (doc d') = dataPoints (doc d) @ [(v, now)]) \<and>
      (length (dataPoints (doc d)) = 1000 \<longrightarrow>
         dataPoints (doc d') = tl (dataPoints (doc d)) @ [(v, now)])"
proof -
  let ?pts = "dataPoints (doc d) @ [(v, now)]"
  let ?d2 = "(set_currentValue v d)\<lparr>doc := (doc (set_currentValue v d))\<lparr>dataPoints :=
      (if length ?pts > 1000 then drop (length ?pts - 1000) ?pts else ?pts)\<rparr>\<rparr>"
  obtain d' where s: "sensor_save now rnd ?d2 = Inr d'"
    using sensor_save_Inr by blast
  have dp: "dataPoints (doc (set_currentValue v d)) = dataPoints (doc d)"
    by (simp add: set_currentValue_def)
  have "addDataPoint now rnd v d = sensor_save now rnd ?d2"
    by (subst addDataPoint_def) (simp only: Let_def assms(1) if_False dp)
  with s have a: "addDataPoint now rnd v d = Inr d'"
    by simp
  note f = sensor_save_fields[OF s]
  have cv: "currentValue (doc d') = v"
    using f(1) by (simp add: set_currentValue_def)
  have pts: "dataPoints (doc d') = drop (length (dataPoints (doc d)) + 1 - 1000) ?pts"
    using f(3) by (simp add: set_currentValue_def)
  have lr: "\<exists>w. lastReading_value (doc d') = Some w \<and> js_strict_eq w v"
  proof (cases "isModified ''currentValue'' ?d2")
    case True
    then show ?thesis using f(8) assms(1) by (simp add: set_currentValue_def js_strict_eq_refl)
  next
    case False
    then have same: "js_strict_eq v (currentValue (doc d))"
      by (auto simp: set_currentValue_def isModified_def markModified_def split: if_splits)
    from False f(8) have "lastReading_value (doc d') = lastReading_value (doc d)"
      by (simp add: set_currentValue_def)
    moreover from assms(2) obtain w where w: "lastReading_value (doc d) = Some w"
        "js_strict_eq w (currentValue (doc d))"
      by (auto simp: snapshot_agrees_def)
    moreover have "js_strict_eq w v"
      using w(2) same by (meson js_strict_eq_trans js_strict_eq_sym)
    ultimately show ?thesis by simp
  qed
  have len: "length (dataPoints (doc d')) = min 1000 (length (dataPoints (doc d)) + 1)"
    by (simp add: pts)
  have lst: "last (dataPoints (doc d')) = (v, now)"
    by (simp add: pts)
  have full: "length (dataPoints (doc d)) = 1000 \<Longrightarrow>
         dataPoints (doc d') = tl (dataPoints (doc d)) @ [(v, now)]"
    by (cases "dataPoints (doc d)") (simp_all add: pts)
  show ?thesis
    using a cv pts lr len lst full by auto
qed

text \<open>
  C8. \<^verbatim>\<open>addDataPoint(value)\<close> on a sensor whose last reading agrees with its current value
  (every stored sensor: see \<open>new_sensor_agrees\<close> and the lemmas after it) succeeds for
  every number: the current value is the new value, the last reading is that value, the
  history is the last 1000 points of the old history with the new point \<open>(value, now)\<close>
  appended, so it is never longer than 1000; and a history of exactly 1000 points loses
  its first point only.
\<close>

theorem addDataPoint_history:
  assumes "v \<noteq> NaN" and "snapshot_agrees (doc d)"
  shows "\<exists>d' w. addDataPoint now rnd v d = Inr d' \<and>
      currentValue (doc d') = v \<and>
      lastReading_value (doc d') = Some w \<and> js_strict_eq w v \<and>
      dataPoints (doc d') =
        drop (length (dataPoints (doc d)) + 1 - 1000) (dataPoints (doc d) @ [(v, now)]) \<and>
      length (dataPoints (doc d')) = min 1000 (length (dataPoints (doc d)) + 1) \<and>
      last (dataPoints (doc d')) = (v, now) \<and>
      (length (dataPoints (doc d)) < 1000 \<longrightarrow>
         dataPoints (doc d') = dataPoints (doc d) @ [(v, now)]) \<and>
      (length (dataPoints (doc d)) = 1000 \<longrightarrow>
         dataPoints (doc d') = tl (dataPoints (doc d)) @ [(v, now)])"
  using assms by (rule addDataPoint_result)

text \<open>A sensor with 1000 stored points receives a reading of 90.\<close>

theorem addDataPoint_history_witness:
  "Fin 90 \<noteq> NaN \<and> snapshot_agrees (doc (hydrate full_bin)) \<and>
   length (dataPoints full_bin) = 1000 \<and>
   (\<exists>d'. addDataPoint 7 Fin (Fin 90) (hydrate full_bin) = Inr d' \<and>
      currentValue (doc d') = Fin 90 \<and> lastReading_value (doc d') = Some (Fin 90) \<and>
      length (dataPoints (doc d')) = 1000 \<and>
      dataPoints (doc d') = replicate 999 (Fin 85, 0) @ [(Fin 90, 7)])"
proof -
  have a: "snapshot_agrees (doc (hydrate full_bin))"
    by (simp add: snapshot_agrees_def hydrate_def full_bin_def bin_sensor_def js_strict_eq_def)
  have l: "length (dataPoints (doc (hydrate full_bin))) = 1000"
    by (simp add: hydrate_def full_bin_def)
  have t: "tl (dataPoints (doc (hydrate full_bin))) = replicate 999 (Fin 85, 0)"
    by (simp add: hydrate_def full_bin_def)
  from addDataPoint_history[OF _ a, of "Fin 90" 7 Fin] l t a
  show ?thesis
    by (auto simp: js_strict_eq_def hydrate_def)
qed

text \<open>The time of the last reading is renewed only when the value differs from the stored
  one: a stored sensor that reports its current value again keeps the old time.\<close>

lemma addDataPoint_same_value_keeps_time:
  assumes "js_strict_eq v (currentValue s)"
  shows "\<exists>d'. addDataPoint now rnd v (hydrate s) = Inr d' \<and>
           lastReading_timestamp (doc d') = lastReading_timestamp s \<and>
           status (doc d') = status s"
proof -
  have "v \<noteq> NaN"
    using assms by (auto simp: js_strict_eq_def)
  then show ?thesis
    using assms
    by (simp add: addDataPoint_def Let_def set_currentValue_def markModified_def hydrate_def
          sensor_save_def sensor_pre_save_def isModified_def saved_def)
qed

text \<open>Every sensor the routes store has a last reading that agrees with its current value:
  creation establishes it, every other route keeps it.\<close>

lemma new_sensor_agrees:
  assumes "sensor_save now rnd (construct s given) = Inr d"
    and "''currentValue'' \<in> given" and "currentValue s \<noteq> NaN"
  shows "snapshot_agrees (doc d)"
proof -
  have "isModified ''currentValue'' (construct s given)"
    using assms(2) by (simp add: isModified_def construct_def)
  moreover have "currentValue (doc (construct s given)) \<noteq> NaN"
    using assms(3) by simp
  ultimately show ?thesis
    using sensor_save_agrees[OF assms(1)] by blast
qed

lemma post_sensor_agrees:
  assumes "post_sensor now rnd u b existing = Inr (m, d)"
  shows "snapshot_agrees (doc d)"
proof -
  let ?s = "\<lparr>name = sb_name b, sensor_type = sb_type b, deviceId = sb_deviceId b,
        unit_name = sb_unit b, currentValue = sb_currentValue b,
        thresholdValue = sb_thresholdValue b, status = Normal, isActive = True,
        lastReading_value = None, lastReading_timestamp = now,
        batteryLevel = None, signalStrength = None, maintenanceHistory = [],
        alerts = [], dataPoints = []\<rparr>"
  let ?given = "{''name'', ''type'', ''deviceId'', ''currentValue'', ''thresholdValue'', ''unit''}"
  from assms have v: "validateSensor b = None"
    and s: "sensor_save now rnd (construct ?s ?given) = Inr d"
    by (auto simp: post_sensor_def split: option.splits if_splits sum.splits)
  from v have "isNumeric (sb_currentValue b)"
    by (auto simp: validateSensor_def split: if_splits)
  then have "currentValue ?s \<noteq> NaN"
    by (auto simp: isNumeric_def)
  then show ?thesis
    using new_sensor_agrees[OF s] by simp
qed

lemma snapshot_agrees_not_NaN: "snapshot_agrees s \<Longrightarrow> currentValue s \<noteq> NaN"
  by (auto simp: snapshot_agrees_def js_strict_eq_def split: option.splits)

lemma snapshot_agrees_cong:
  "lastReading_value s' = lastReading_value s \<Longrightarrow> currentValue s' = currentValue s \<Longrightarrow>
   snapshot_agrees s' = snapshot_agrees s"
  by (simp add: snapshot_agrees_def)

lemma sensor_save_other:
  assumes "sensor_save now rnd d = Inr d'" and "snapshot_agrees (doc d)"
  shows "snapshot_agrees (doc d')"
  using sensor_save_agrees[OF assms(1)] assms(2) snapshot_agrees_not_NaN by blast

lemma set_currentValue_agrees:
  assumes "v \<noteq> NaN" and "snapshot_agrees (doc d)"
  shows "isModified ''currentValue'' (set_currentValue v d) \<or> snapshot_agrees (doc (set_currentValue v d))"
proof (cases "js_strict_eq v (currentValue (doc d))")
  case True
  then have "snapshot_agrees (doc (set_currentValue v d))"
    using assms(2)
    by (auto simp: snapshot_agrees_def set_currentValue_def split: option.splits
             intro: js_strict_eq_trans js_strict_eq_sym)
  then show ?thesis ..
next
  case False
  then show ?thesis
    by (simp add: set_currentValue_def isModified_def markModified_def)
qed

lemma addDataPoint_agrees:
  assumes "addDataPoint now rnd v d = Inr d'" and "snapshot_agrees (doc d)"
  shows "snapshot_agrees (doc d')"
proof -
  have v: "v \<noteq> NaN"
    using assms(1) by (auto simp: addDataPoint_def)
  from addDataPoint_result[OF v assms(2), of now rnd] assms(1)
  obtain w where "currentValue (doc d') = v" "lastReading_value (doc d') = Some w" "js_strict_eq w v"
    by auto
  then show ?thesis by (simp add: snapshot_agrees_def)
qed

lemma put_sensor_agrees:
  assumes "put_sensor now rnd u b existing (Some s) = Inr (m, d)" and "snapshot_agrees s"
  shows "snapshot_agrees (doc d)"
proof -
  let ?d1 = "(hydrate s)\<lparr>doc := (doc (hydrate s))\<lparr>name := sb_name b, sensor_type := sb_type b,
                                                deviceId := sb_deviceId b\<rparr>\<rparr>"
  let ?d2 = "set_currentValue (sb_currentValue b) ?d1"
  let ?d3 = "set_thresholdValue (sb_thresholdValue b) ?d2"
  let ?d4 = "?d3\<lparr>doc := (doc ?d3)\<lparr>unit_name := sb_unit b\<rparr>\<rparr>"
  from assms(1) have v: "validateSensor b = None" and s: "sensor_save now rnd ?d4 = Inr d"
    by (auto simp: put_sensor_def Let_def split: option.splits if_splits sum.splits)
  from v have n: "sb_currentValue b \<noteq> NaN"
    by (auto simp: validateSensor_def isNumeric_def split: if_splits)
  have "snapshot_agrees (doc ?d1)"
    using assms(2) by (simp add: snapshot_agrees_def)
  from set_currentValue_agrees[OF n this]
  have "isModified ''currentValue'' ?d4 \<or> snapshot_agrees (doc ?d4)"
    by (auto simp: set_thresholdValue_def isModified_def markModified_def snapshot_agrees_def)
  moreover have "currentValue (doc ?d4) \<noteq> NaN"
    using n by (simp add: set_thresholdValue_def set_currentValue_def)
  ultimately show ?thesis
    using sensor_save_agrees[OF s] by blast
qed

lemma delete_sensor_agrees:
  assumes "delete_sensor now rnd u (Some s) = Inr (m, d)" and "snapshot_agrees s"
  shows "snapshot_agrees (doc d)"
proof -
  let ?d1 = "(hydrate s)\<lparr>doc := (doc (hydrate s))\<lparr>isActive := False\<rparr>\<rparr>"
  from assms(1) have s: "sensor_save now rnd ?d1 = Inr d"
    by (auto simp: delete_sensor_def Let_def split: option.splits if_splits sum.splits)
  have "snapshot_agrees (doc ?d1)"
    using assms(2) by (simp add: snapshot_agrees_def)
  then show ?thesis by (rule sensor_save_other[OF s])
qed

lemma post_sensor_data_agrees:
  assumes "post_sensor_data now rnd v battery signal (Some s) = Inr (m, d)" and "snapshot_agrees s"
  shows "snapshot_agrees (doc d)"
proof -
  from assms(1) obtain d1 where a: "addDataPoint now rnd v (hydrate s) = Inr d1"
    and s: "sensor_save now rnd
         (let d2 = (case battery of None \<Rightarrow> d1
                            | Some b \<Rightarrow> d1\<lparr>doc := (doc d1)\<lparr>batteryLevel := Some b\<rparr>\<rparr>)
          in (case signal of None \<Rightarrow> d2
                            | Some g \<Rightarrow> d2\<lparr>doc := (doc d2)\<lparr>signalStrength := Some g\<rparr>\<rparr>)) = Inr d"
    by (auto simp: post_sensor_data_def Let_def split: option.splits if_splits sum.splits)
  have "snapshot_agrees (doc d1)"
    using addDataPoint_agrees[OF a] assms(2) by simp
  then have "snapshot_agrees (doc (let d2 = (case battery of None \<Rightarrow> d1
                            | Some b \<Rightarrow> d1\<lparr>doc := (doc d1)\<lparr>batteryLevel := Some b\<rparr>\<rparr>)
          in (case signal of None \<Rightarrow> d2
                            | Some g \<Rightarrow> d2\<lparr>doc := (doc d2)\<lparr>signalStrength := Some g\<rparr>\<rparr>)))"
    by (simp add: snapshot_agrees_def Let_def split: option.splits)
  then show ?thesis by (rule sensor_save_other[OF s])
qed

lemma post_sensor_alert_agrees:
  assumes "post_sensor_alert now rnd u nid ty msg sev (Some s) = Inr (m, d)" and "snapshot_agrees s"
  shows "snapshot_agrees (doc d)"
proof -
  from assms(1) obtain sv where s: "addAlert now rnd nid ty msg sv (hydrate s) = Inr d"
    by (auto simp: post_sensor_alert_def split: option.splits if_splits sum.splits)
  have "snapshot_agrees (doc ((hydrate s)\<lparr>doc := (doc (hydrate s))\<lparr>alerts := alerts (doc (hydrate s)) @
          [\<lparr>alert_id = nid, alert_type = ty, alert_message = msg, severity = sv,
            alert_timestamp = now, isAcknowledged = False, acknowledgedBy = None,
            acknowledgedAt = None\<rparr>]\<rparr>\<rparr>))"
    using assms(2) by (simp add: snapshot_agrees_def)
  then show ?thesis
    by (rule sensor_save_other[OF s[unfolded addAlert_def]])
qed

lemma post_sensor_alert_acknowledge_agrees:
  assumes "post_sensor_alert_acknowledge now rnd u alertId (Some s) = Inr (m, d)" and "snapshot_agrees s"
  shows "snapshot_agrees (doc d)"
proof -
  from assms(1) obtain uid where s: "acknowledgeAlert now rnd alertId uid (hydrate s) = Inr d"
    by (auto simp: post_sensor_alert_acknowledge_def split: option.splits if_splits sum.splits)
  have "snapshot_agrees (doc ((hydrate s)\<lparr>doc := (doc (hydrate s))\<lparr>alerts :=
          acknowledge_first now alertId uid (alerts (doc (hydrate s)))\<rparr>\<rparr>))"
    using assms(2) by (simp add: snapshot_agrees_def)
  then show ?thesis
    by (rule sensor_save_other[OF s[unfolded acknowledgeAlert_def]])
qed

lemma post_sensor_maintenance_agrees:
  assumes "post_sensor_maintenance now rnd u ty descr username (Some s) = Inr (m, d)" and "snapshot_agrees s"
  shows "snapshot_agrees (doc d)"
proof -
  from assms(1) have s: "addMaintenanceRecord now rnd ty descr username (hydrate s) = Inr d"
    by (auto simp: post_sensor_maintenance_def split: option.splits if_splits sum.splits)
  have "snapshot_agrees (doc ((hydrate s)\<lparr>doc := (doc (hydrate s))\<lparr>maintenanceHistory :=
          maintenanceHistory (doc (hydrate s)) @ [(now, ty, descr, username)]\<rparr>\<rparr>))"
    using assms(2) by (simp add: snapshot_agrees_def)
  then show ?thesis
    by (rule sensor_save_other[OF s[unfolded addMaintenanceRecord_def]])
qed

section \<open>Alerts\<close>

lemma acknowledge_first_absent:
  "alertId \<notin> alert_id ` set as \<Longrightarrow> acknowledge_first now alertId uid as = as"
  by (induction as) auto

text \<open>
  C9. When no alert of the sensor has the given id, the acknowledge route (asked by an
  administrator, for a sensor that exists) answers that the alert was acknowledged, and the
  sensor it saves is the stored one: no alert is changed.
\<close>

theorem acknowledge_unknown_alert:
  assumes "alertId \<notin> alert_id ` set (alerts s)" and "user_role usr = RoleAdmin"
  shows "post_sensor_alert_acknowledge now rnd usr alertId (Some s)
           = Inr (''Alert acknowledged successfully'', hydrate s)
         \<and> sensor_stored s (post_sensor_alert_acknowledge now rnd usr alertId (Some s)) = s"
proof -
  have h: "(hydrate s)\<lparr>doc := s\<rparr> = hydrate s"
    by (simp add: hydrate_def)
  have "acknowledgeAlert now rnd alertId (user_id usr) (hydrate s) = Inr (hydrate s)"
    using assms(1)
    by (simp add: acknowledgeAlert_def acknowledge_first_absent sensor_save_unmodified h)
  then show ?thesis
    using assms(2)
    by (simp add: post_sensor_alert_acknowledge_def requireAdmin_def sensor_stored_def)
qed

theorem acknowledge_unknown_alert_witness:
  "post_sensor_alert_acknowledge 3 Fin admin 42 (Some bin_sensor)
     = Inr (''Alert acknowledged successfully'', hydrate bin_sensor) \<and>
   alerts (sensor_stored bin_sensor
     (post_sensor_alert_acknowledge 3 Fin admin 42 (Some bin_sensor))) = []"
  using acknowledge_unknown_alert[of 42 bin_sensor admin 3 Fin]
  by (simp add: bin_sensor_def admin_def sensor_stored_def)

text \<open>
  C6. The data route refuses an inactive sensor; the alert route does not look at
  \<^verbatim>\<open>isActive\<close>, and stores the alert.
\<close>

theorem inactive_sensor_accepts_alert:
  "isActive retired_bin = False \<and> alerts retired_bin = [] \<and>
   post_sensor_data 0 Fin (Fin 90) None None (Some retired_bin)
     = Inl (AppError ''Sensor is inactive'' 400) \<and>
   map alert_message
     (alerts (sensor_stored retired_bin
        (post_sensor_alert 0 Fin admin 7 ''battery-low'' ''Battery low'' None
           (Some retired_bin))))
     = [''Battery low'']"
  by (simp add: retired_bin_def bin_sensor_def admin_def post_sensor_data_def isNumeric_def
        isInt_0_100_def post_sensor_alert_def requireAdmin_def alert_types_def addAlert_def
        sensor_save_unmodified sensor_stored_def)

section \<open>Complaints\<close>

lemma complaint_save_Inr:
  "complaint_save now d = Inr d' \<Longrightarrow>
     c_status (doc d') = c_status (doc d) \<and>
     actualResolutionTime (doc d') =
       (if isModified ''status'' d \<and> c_status (doc d) = Resolved then Some now
        else actualResolutionTime (doc d))"
  by (auto simp: complaint_save_def complaint_pre_save_def Let_def split: if_splits)

lemma complaint_save_total: "\<exists>d'. complaint_save now d = Inr d'"
  by (simp add: complaint_save_def complaint_pre_save_def Let_def)

lemma put_resolved:
  "c_status c = Resolved \<or> c_status c = Closed \<Longrightarrow> \<exists>e. put_complaint now u b (Some c) = Inl e"
  by (simp add: put_complaint_def split: option.splits)

lemma escalate_resolved:
  "c_status c = Resolved \<or> c_status c = Closed \<Longrightarrow> \<exists>e. post_complaint_escalate now u (Some c) = Inl e"
  by (simp add: post_complaint_escalate_def split: option.splits)

lemma resolve_resolved:
  "c_status c = Resolved \<Longrightarrow> \<exists>e. post_complaint_resolve now u notes (Some c) = Inl e"
  by (simp add: post_complaint_resolve_def split: option.splits)

lemma delete_not_pending:
  "c_status c \<noteq> Pending \<Longrightarrow> \<exists>e. delete_complaint u given (Some c) = Inl e"
  by (simp add: delete_complaint_def split: option.splits)

lemma respond_keeps:
  "post_complaint_respond now u msg (Some c) = Inr (m, d) \<Longrightarrow>
     c_status (doc d) = c_status c \<and> actualResolutionTime (doc d) = actualResolutionTime c"
  by (auto simp: post_complaint_respond_def addAdminResponse_def
           split: option.splits if_splits sum.splits dest!: complaint_save_Inr)

lemma feedback_ids_write:
  "feedback_ids (map (\<lambda>(k, f). if k = j then (k, x) else (k, f)) fs) = feedback_ids fs"
  by (induction fs) (auto simp: feedback_ids_def)

lemma feedback_ids_append: "feedback_ids (fs @ [(i, f)]) = feedback_ids fs @ [i]"
  by (simp add: feedback_ids_def)

lemma feedback_ids_delete:
  "feedback_ids (filter (\<lambda>(j, f). j \<noteq> i) fs) = filter (\<lambda>j. j \<noteq> i) (feedback_ids fs)"
  by (induction fs) (auto simp: feedback_ids_def)

lemma wf_write_feedback: "wf_state st \<Longrightarrow> wf_state (write_feedback i r st)"
  by (cases r) (auto simp: wf_state_def write_feedback_def feedback_ids_write)

lemma wf_insert_feedback: "wf_state st \<Longrightarrow> wf_state (insert_feedback r st)"
  by (cases r) (fastforce simp: wf_state_def insert_feedback_def feedback_ids_append less_Suc_eq)+

lemma wf_insert_complaint: "wf_state st \<Longrightarrow> wf_state (insert_complaint r st)"
  by (cases r) (auto simp: wf_state_def insert_complaint_def less_Suc_eq)

lemma wf_write_complaint:
  "wf_state st \<Longrightarrow> (\<forall>x. r = Inr x \<longrightarrow> complaintsDb st i \<noteq> None) \<Longrightarrow>
   wf_state (write_complaint i r st)"
  by (cases r) (auto simp: wf_state_def write_complaint_def split: if_splits)

lemma put_complaint_found: "put_complaint now u b found = Inr x \<Longrightarrow> found \<noteq> None"
  by (auto simp: put_complaint_def split: option.splits)

lemma respond_complaint_found: "post_complaint_respond now u msg found = Inr x \<Longrightarrow> found \<noteq> None"
  by (auto simp: post_complaint_respond_def split: option.splits if_splits)

lemma resolve_complaint_found: "post_complaint_resolve now u nts found = Inr x \<Longrightarrow> found \<noteq> None"
  by (auto simp: post_complaint_resolve_def split: option.splits if_splits)

lemma escalate_complaint_found: "post_complaint_escalate now u found = Inr x \<Longrightarrow> found \<noteq> None"
  by (auto simp: post_complaint_escalate_def split: option.splits)

lemma handle_keeps_resolved:
  assumes "wf_state st" and "complaintsDb st i = Some c" and "c_status c = Resolved"
  shows "\<exists>c'. complaintsDb (handle now r st) i = Some c' \<and> c_status c' = Resolved \<and>
           actualResolutionTime c' = actualResolutionTime c"
proof -
  have fresh: "i \<noteq> nextComplaintId st"
    using assms(1,2) by (auto simp: wf_state_def)
  show ?thesis
  proof (cases r)
    case (CreateComplaint u b)
    then show ?thesis using assms fresh
      by (auto simp: insert_complaint_def split: sum.splits)
  next
    case (SeedComplaint c0)
    then show ?thesis using assms fresh
      by (auto simp: insert_complaint_def split: sum.splits)
  next
    case (UpdateComplaint u j b)
    then show ?thesis using assms put_resolved[of c now u b]
      by (auto simp: write_complaint_def split: sum.splits)
  next
    case (DeleteComplaint u j given)
    then show ?thesis using assms delete_not_pending[of c u given]
      by (auto split: sum.splits)
  next
    case (RespondComplaint u j msg)
    then show ?thesis using assms
      by (auto simp: write_complaint_def split: sum.splits dest!: respond_keeps)
  next
    case (ResolveComplaint u j nts)
    then show ?thesis using assms resolve_resolved[of c now u nts]
      by (auto simp: write_complaint_def split: sum.splits)
  next
    case (EscalateComplaint u j)
    then show ?thesis using assms escalate_resolved[of c now u]
      by (auto simp: write_complaint_def split: sum.splits)
  qed (use assms in \<open>auto simp: insert_feedback_def write_feedback_def split: sum.splits\<close>)
qed

lemma wf_handle:
  assumes "wf_state st"
  shows "wf_state (handle now r st)"
proof (cases r)
  case (DeleteComplaint u j given)
  then show ?thesis using assms
    by (auto simp: wf_state_def split: sum.splits)
next
  case (DeleteFeedback u j given)
  then show ?thesis using assms
    by (auto simp: wf_state_def feedback_ids_delete split: sum.splits)
qed (use assms in \<open>auto intro!: wf_write_feedback wf_insert_feedback wf_insert_complaint
       wf_write_complaint
       dest: put_complaint_found respond_complaint_found resolve_complaint_found
         escalate_complaint_found\<close>)

lemma wf_init: "wf_state init_state"
  by (simp add: wf_state_def init_state_def feedback_ids_def)

lemma wf_run: "wf_state st \<Longrightarrow> wf_state (run rs st)"
  by (induction rs arbitrary: st) (auto simp: wf_handle)

lemma run_append: "run (rs1 @ rs2) st = run rs2 (run rs1 st)"
  by (induction rs1 arbitrary: st) auto

lemma run_keeps_resolved:
  "wf_state st \<Longrightarrow> complaintsDb st i = Some c \<Longrightarrow> c_status c = Resolved \<Longrightarrow>
   \<exists>c'. complaintsDb (run rs st) i = Some c' \<and> c_status c' = Resolved \<and>
        actualResolutionTime c' = actualResolutionTime c"
proof (induction rs arbitrary: st c)
  case Nil
  then show ?case by simp
next
  case (Cons x rs)
  obtain now r where x: "x = (now, r)" by (cases x)
  from handle_keeps_resolved[OF Cons.prems, of now r]
  obtain c1 where c1: "complaintsDb (handle now r st) i = Some c1" "c_status c1 = Resolved"
      "actualResolutionTime c1 = actualResolutionTime c"
    by blast
  from Cons.IH[OF wf_handle[OF Cons.prems(1)] c1(1,2)] c1(3) x
  show ?case by auto
qed

lemmas eval_defs =
  insert_complaint_def write_complaint_def insert_feedback_def write_feedback_def labelled_def
  post_complaint_def put_complaint_def delete_complaint_def post_complaint_respond_def
  post_complaint_resolve_def post_complaint_escalate_def new_complaint_def
  complaint_save_def complaint_pre_save_def escalate_def addAdminResponse_def resolve_def
  ageInDays_def validateComplaint_def categories_def priorities_def
  requireAdmin_def requireOwnershipOrAdmin_def
  construct_def hydrate_def saved_def isModified_def markModified_def
  post_feedback_def put_feedback_def delete_feedback_def post_feedback_helpful_def
  post_feedback_flag_def post_feedback_respond_def new_feedback_def feedback_save_def
  feedback_pre_save_def findOne_def validateFeedback_def feedback_categories_def
  init_state_def Let_def

text \<open>
  C2. A pending complaint of high priority is escalated by hand to level 3 on its second
  day; the save of an administrator's response on its eighth day stores level 1.
\<close>

theorem escalation_lowered_by_save:
  "map_option escalationLevel (complaintsDb (run escalated_thrice init_state) 0) = Some 3 \<and>
   map_option c_status (complaintsDb (run escalated_thrice init_state) 0) = Some Pending \<and>
   map_option escalationLevel
     (complaintsDb (run (escalated_thrice @ [(7 * day, RespondComplaint admin 0 ''Plumber booked'')])
        init_state) 0) = Some 1"
  by (simp add: escalated_thrice_def day_def resident_def admin_def leak_body_def eval_defs)

text \<open>The automatic level of a save: for a pending complaint of high priority that is
  at least 7 days old it is \<open>min 3 (age div 7)\<close>, whatever the level was.\<close>

lemma auto_escalation_level:
  assumes "c_status (doc d) = Pending" and "priority (doc d) = ''high''"
    and "ageInDays now (doc d) = Some age" and "7 \<le> age"
  shows "\<exists>d'. complaint_save now d = Inr d' \<and> escalationLevel (doc d') = min 3 (age div 7) \<and>
           isUrgent (doc d') = isUrgent (doc d)"
  using assms
  by (simp add: complaint_save_def complaint_pre_save_def Let_def)

text \<open>
  C3. A pending complaint of high priority is saved (here by an update) when it is 14 days
  old: the level becomes 2, the urgency flag stays false. Only \<^verbatim>\<open>escalate\<close> sets the flag.
\<close>

theorem auto_escalation_leaves_urgency:
  "map_option escalationLevel
     (complaintsDb (run [(0, CreateComplaint resident leak_body),
                         (14 * day, UpdateComplaint resident 0 leak_body)] init_state) 0)
     = Some 2 \<and>
   map_option isUrgent
     (complaintsDb (run [(0, CreateComplaint resident leak_body),
                         (14 * day, UpdateComplaint resident 0 leak_body)] init_state) 0)
     = Some False"
  by (simp add: day_def resident_def leak_body_def eval_defs)

text \<open>
  C4. A closed complaint is refused by the update and the escalate routes, and resolved
  by the resolve route.
\<close>

theorem closed_complaint_resolved:
  "map_option c_status (complaintsDb (run [(0, SeedComplaint closed_complaint)] init_state) 0)
     = Some Closed \<and>
   map_option c_status
     (complaintsDb (run [(0, SeedComplaint closed_complaint),
                         (1, ResolveComplaint admin 0 None)] init_state) 0)
     = Some Resolved \<and>
   put_complaint 1 admin leak_body (Some closed_complaint)
     = Inl (AppError ''Cannot update resolved or closed complaints'' 400) \<and>
   post_complaint_escalate 1 admin (Some closed_complaint)
     = Inl (AppError ''Cannot escalate resolved or closed complaints'' 400)"
  by (simp add: closed_complaint_def admin_def leak_body_def eval_defs)

text \<open>
  C5. Asked by an administrator, with notes of at most 500 characters: resolving a
  resolved complaint fails with \<open>Complaint is already resolved\<close> (status 400) and the stored
  complaint is unchanged; resolving any other complaint stores it as resolved with the
  resolution time \<open>now\<close>. And from whatever requests a resolved complaint has come about,
  after any further requests it is still stored, still resolved, and its resolution time
  is the same.
\<close>

theorem resolve_once:
  "(user_role usr = RoleAdmin \<and> (case nts of None \<Rightarrow> True | Some n \<Rightarrow> length n \<le> 500) \<longrightarrow>
      (c_status c = Resolved \<longrightarrow>
         post_complaint_resolve now usr nts (Some c)
           = Inl (AppError ''Complaint is already resolved'' 400) \<and>
         complaint_stored c (post_complaint_resolve now usr nts (Some c)) = c) \<and>
      (c_status c \<noteq> Resolved \<longrightarrow>
         (\<exists>d. post_complaint_resolve now usr nts (Some c)
                 = Inr (''Complaint resolved successfully'', d) \<and>
              c_status (doc d) = Resolved \<and> actualResolutionTime (doc d) = Some now))) \<and>
   (complaintsDb (run rs1 init_state) i = Some c1 \<and> c_status c1 = Resolved \<longrightarrow>
      (\<exists>c2. complaintsDb (run (rs1 @ rs2) init_state) i = Some c2 \<and> c_status c2 = Resolved \<and>
            actualResolutionTime c2 = actualResolutionTime c1))"
proof -
  have again: "post_complaint_resolve now usr nts (Some c)
         = Inl (AppError ''Complaint is already resolved'' 400)"
    if "user_role usr = RoleAdmin" "case nts of None \<Rightarrow> True | Some n \<Rightarrow> length n \<le> 500"
       "c_status c = Resolved"
    using that by (auto simp: post_complaint_resolve_def requireAdmin_def split: option.splits)
  have first: "\<exists>d. post_complaint_resolve now usr nts (Some c)
                 = Inr (''Complaint resolved successfully'', d) \<and>
              c_status (doc d) = Resolved \<and> actualResolutionTime (doc d) = Some now"
    if "user_role usr = RoleAdmin" "case nts of None \<Rightarrow> True | Some n \<Rightarrow> length n \<le> 500"
       "c_status c \<noteq> Resolved"
    using that
    by (auto simp: post_complaint_resolve_def requireAdmin_def resolve_def complaint_save_def
          complaint_pre_save_def Let_def isModified_def markModified_def hydrate_def
          split: option.splits)
  have later: "\<exists>c2. complaintsDb (run (rs1 @ rs2) init_state) i = Some c2 \<and> c_status c2 = Resolved \<and>
            actualResolutionTime c2 = actualResolutionTime c1"
    if "complaintsDb (run rs1 init_state) i = Some c1" "c_status c1 = Resolved"
    using run_keeps_resolved[OF wf_run[OF wf_init, of rs1] that, of rs2]
    by (simp add: run_append)
  show ?thesis
    using again first later by (simp add: complaint_stored_def)
qed

text \<open>A complaint resolved at time 10, then asked to be resolved again, answered, updated,
  escalated and deleted: the second resolve fails, the resolution time stays 10.\<close>

theorem resolve_once_witness:
  "user_role admin = RoleAdmin \<and>
   map_option c_status (complaintsDb (run resolved_once init_state) 0) = Some Resolved \<and>
   post_complaint_resolve 20 admin None (complaintsDb (run resolved_once init_state) 0)
     = Inl (AppError ''Complaint is already resolved'' 400) \<and>
   map_option actualResolutionTime
     (complaintsDb (run (resolved_once @ later_requests) init_state) 0) = Some (Some 10)"
proof -
  obtain c where c: "complaintsDb (run resolved_once init_state) 0 = Some c"
      "c_status c = Resolved" "actualResolutionTime c = Some 10"
    by (simp add: resolved_once_def resident_def admin_def leak_body_def eval_defs)
  from resolve_once[of admin None c 20 resolved_once 0 c later_requests] c
  show ?thesis
    by (auto simp: admin_def)
qed

section \<open>Feedback\<close>

lemma findOne_None: "findOne cid uid fs = None \<longleftrightarrow> (cid, uid) \<notin> set (map fb_key fs)"
  by (force simp: findOne_def find_None_iff fb_key_def)

lemma feedback_save_new:
  assumes "feedback_save cs fs d = Inr d'" and "isNew d"
  shows "doc d' = doc d \<and> on_resolved cs (n, doc d) \<and> fb_key (n, doc d) \<notin> set (map fb_key fs)"
  using assms
  by (auto simp: feedback_save_def feedback_pre_save_def on_resolved_def fb_key_def
                 findOne_None[unfolded fb_key_def, simplified]
           split: if_splits option.splits sum.splits)

lemma feedback_save_old:
  "\<not> isNew d \<Longrightarrow> feedback_save cs fs d = Inr (saved d)"
  by (simp add: feedback_save_def feedback_pre_save_def)

lemma new_feedback_Inr:
  assumes "new_feedback now cs fs f = Inr d"
  shows "on_resolved cs (n, doc d) \<and> fb_key (n, doc d) \<notin> set (map fb_key fs)"
  using feedback_save_new[OF assms[unfolded new_feedback_def], of n]
  by (simp add: on_resolved_def fb_key_def)

lemma post_feedback_Inr:
  assumes "post_feedback now cs fs u b = Inr (m, d)"
  shows "on_resolved cs (n, doc d) \<and> fb_key (n, doc d) \<notin> set (map fb_key fs)"
  using assms new_feedback_Inr[of now cs fs _ d n]
  by (auto simp: post_feedback_def split: option.splits if_splits sum.splits)

lemma put_feedback_Inr:
  assumes "put_feedback now cs fs u b found = Inr (m, d)"
  shows "\<exists>f. found = Some f \<and> complaintId (doc d) = complaintId f \<and> f_userId (doc d) = f_userId f"
  using assms
  by (auto simp: put_feedback_def Let_def feedback_save_old
           split: option.splits if_splits sum.splits)

lemma helpful_feedback_Inr:
  assumes "post_feedback_helpful cs fs found = Inr (m, d)"
  shows "\<exists>f. found = Some f \<and> complaintId (doc d) = complaintId f \<and> f_userId (doc d) = f_userId f"
  using assms
  by (auto simp: post_feedback_helpful_def Let_def feedback_save_old
           split: option.splits if_splits sum.splits)

lemma flag_feedback_Inr:
  assumes "post_feedback_flag cs fs u reason found = Inr (m, d)"
  shows "\<exists>f. found = Some f \<and> complaintId (doc d) = complaintId f \<and> f_userId (doc d) = f_userId f"
  using assms
  by (auto simp: post_feedback_flag_def Let_def feedback_save_old
           split: option.splits if_splits sum.splits)

lemma respond_feedback_Inr:
  assumes "post_feedback_respond now cs fs u msg found = Inr (m, d)"
  shows "\<exists>f. found = Some f \<and> complaintId (doc d) = complaintId f \<and> f_userId (doc d) = f_userId f"
  using assms
  by (auto simp: post_feedback_respond_def Let_def feedback_save_old
           split: option.splits if_splits sum.splits)

lemma write_same_pair:
  assumes "distinct (feedback_ids fs)" and "map_of fs i = Some f"
    and "complaintId g = complaintId f" and "f_userId g = f_userId f"
  shows "map fb_key (map (\<lambda>(j, h). if j = i then (j, g) else (j, h)) fs) = map fb_key fs"
    and "list_all (on_resolved cs) (map (\<lambda>(j, h). if j = i then (j, g) else (j, h)) fs)
         = list_all (on_resolved cs) fs"
proof -
  have same: "h = f" if "(i, h) \<in> set fs" for h
    using assms(1,2) that by (simp add: feedback_ids_def)
  have "\<forall>x \<in> set fs. fb_key ((\<lambda>(j, h). if j = i then (j, g) else (j, h)) x) = fb_key x"
    using same assms(3,4) by (auto simp: fb_key_def)
  then show "map fb_key (map (\<lambda>(j, h). if j = i then (j, g) else (j, h)) fs) = map fb_key fs"
    by (simp add: map_idI comp_def cong: map_cong)
  have "\<forall>x \<in> set fs. on_resolved cs ((\<lambda>(j, h). if j = i then (j, g) else (j, h)) x) = on_resolved cs x"
    using same assms(3) by (auto simp: on_resolved_def split: if_splits)
  then show "list_all (on_resolved cs) (map (\<lambda>(j, h). if j = i then (j, g) else (j, h)) fs)
         = list_all (on_resolved cs) fs"
    by (simp add: list_all_iff)
qed

lemma inv_write_feedback:
  assumes "wf_state st" and "feedback_inv st"
    and "\<And>m d. r = Inr (m, d) \<Longrightarrow>
          \<exists>f. map_of (feedbackDb st) i = Some f \<and> complaintId (doc d) = complaintId f \<and>
              f_userId (doc d) = f_userId f"
  shows "feedback_inv (write_feedback i r st)"
proof (cases r)
  case (Inl e)
  then show ?thesis using assms(2) by (simp add: write_feedback_def)
next
  case (Inr x)
  obtain m d where x: "x = (m, d)" by (cases x)
  from assms(3)[of m d] Inr x obtain f where f: "map_of (feedbackDb st) i = Some f"
      "complaintId (doc d) = complaintId f" "f_userId (doc d) = f_userId f"
    by auto
  have dist: "distinct (feedback_ids (feedbackDb st))"
    using assms(1) by (simp add: wf_state_def)
  let ?fs = "map (\<lambda>(j, h). if j = i then (j, doc d) else (j, h)) (feedbackDb st)"
  have k: "map fb_key ?fs = map fb_key (feedbackDb st)"
    by (rule write_same_pair(1)[OF dist f])
  have l: "list_all (on_resolved (complaintsDb st)) ?fs
           = list_all (on_resolved (complaintsDb st)) (feedbackDb st)"
    by (rule write_same_pair(2)[OF dist f])
  have fd: "feedbackDb (write_feedback i r st) = ?fs"
    and cd: "complaintsDb (write_feedback i r st) = complaintsDb st"
    using Inr x by (simp_all add: write_feedback_def)
  show ?thesis
    unfolding feedback_inv_def fd cd k l using assms(2)[unfolded feedback_inv_def] .
qed

lemma inv_insert_feedback:
  assumes "feedback_inv st"
    and "\<And>m d. r = Inr (m, d) \<Longrightarrow>
          on_resolved (complaintsDb st) (nextFeedbackId st, doc d) \<and>
          fb_key (nextFeedbackId st, doc d) \<notin> set (map fb_key (feedbackDb st))"
  shows "feedback_inv (insert_feedback r st)"
proof (cases r)
  case (Inl e)
  then show ?thesis using assms(1) by (simp add: insert_feedback_def)
next
  case (Inr x)
  obtain m d where x: "x = (m, d)" by (cases x)
  show ?thesis
    using assms(1) assms(2)[of m d] Inr x
    by (simp add: feedback_inv_def insert_feedback_def)
qed

lemma on_resolved_handle:
  assumes "wf_state st" and "on_resolved (complaintsDb st) x"
  shows "on_resolved (complaintsDb (handle now r st)) x"
proof -
  from assms(2) obtain c where c: "complaintsDb st (complaintId (snd x)) = Some c" "c_status c = Resolved"
    by (auto simp: on_resolved_def split: option.splits)
  from handle_keeps_resolved[OF assms(1) c, of now r] show ?thesis
    by (auto simp: on_resolved_def)
qed

lemma inv_complaints_only:
  assumes "wf_state st" and "feedback_inv st" and "feedbackDb (handle now r st) = feedbackDb st"
  shows "feedback_inv (handle now r st)"
  using assms on_resolved_handle[OF assms(1), of _ now r]
  by (auto simp: feedback_inv_def list_all_iff)

lemma inv_handle:
  assumes "wf_state st" and "feedback_inv st"
  shows "feedback_inv (handle now r st)"
proof (cases r)
  case (CreateFeedback u b)
  then show ?thesis using assms(2)
    by (auto intro!: inv_insert_feedback dest: post_feedback_Inr)
next
  case (SeedFeedback f)
  then show ?thesis using assms(2)
    by (auto intro!: inv_insert_feedback simp: labelled_def split: sum.splits dest: new_feedback_Inr)
next
  case (UpdateFeedback u i b)
  then show ?thesis using assms
    by (auto intro!: inv_write_feedback dest!: put_feedback_Inr)
next
  case (HelpfulFeedback u i)
  then show ?thesis using assms
    by (auto intro!: inv_write_feedback dest!: helpful_feedback_Inr)
next
  case (FlagFeedback u i reason)
  then show ?thesis using assms
    by (auto intro!: inv_write_feedback dest!: flag_feedback_Inr)
next
  case (RespondFeedback u i msg)
  then show ?thesis using assms
    by (auto intro!: inv_write_feedback dest!: respond_feedback_Inr)
next
  case (DeleteFeedback u i given)
  then show ?thesis using assms(2)
    by (auto simp: feedback_inv_def distinct_map_filter list_all_iff split: sum.splits)
next
  case (CreateComplaint u b)
  then have "feedbackDb (handle now r st) = feedbackDb st"
    by (auto simp: insert_complaint_def split: sum.splits)
  then show ?thesis by (rule inv_complaints_only[OF assms])
next
  case (SeedComplaint c)
  then have "feedbackDb (handle now r st) = feedbackDb st"
    by (auto simp: insert_complaint_def split: sum.splits)
  then show ?thesis by (rule inv_complaints_only[OF assms])
next
  case (UpdateComplaint u i b)
  then have "feedbackDb (handle now r st) = feedbackDb st"
    by (auto simp: write_complaint_def split: sum.splits)
  then show ?thesis by (rule inv_complaints_only[OF assms])
next
  case (DeleteComplaint u i given)
  then have "feedbackDb (handle now r st) = feedbackDb st"
    by (auto split: sum.splits)
  then show ?thesis by (rule inv_complaints_only[OF assms])
next
  case (RespondComplaint u i msg)
  then have "feedbackDb (handle now r st) = feedbackDb st"
    by (auto simp: write_complaint_def split: sum.splits)
  then show ?thesis by (rule inv_complaints_only[OF assms])
next
  case (ResolveComplaint u i nts)
  then have "feedbackDb (handle now r st) = feedbackDb st"
    by (auto simp: write_complaint_def split: sum.splits)
  then show ?thesis by (rule inv_complaints_only[OF assms])
next
  case (EscalateComplaint u i)
  then have "feedbackDb (handle now r st) = feedbackDb st"
    by (auto simp: write_complaint_def split: sum.splits)
  then show ?thesis by (rule inv_complaints_only[OF assms])
qed

lemma inv_run: "wf_state st \<Longrightarrow> feedback_inv st \<Longrightarrow> feedback_inv (run rs st)"
  by (induction rs arbitrary: st) (auto simp: wf_handle inv_handle)

lemma inv_init: "feedback_inv init_state"
  by (simp add: feedback_inv_def init_state_def)

text \<open>
  C7. Creating a feedback record fails unless the complaint it names is stored and
  resolved, and fails when a record of the same complaint and user is stored, both through
  the route and through the model's own hook (a valid request gets the status 400 with the
  message of the check that failed). Hence after any requests whatever, no two stored
  feedback records have the same complaint and user, and every stored record is on a
  complaint that is resolved: it was when the record was made, and a resolved complaint
  stays resolved.
\<close>

theorem feedback_once_on_resolved:
  "((case cs (fb_complaintId b) of None \<Rightarrow> True | Some c \<Rightarrow> c_status c \<noteq> Resolved) \<longrightarrow>
      (\<exists>e. post_feedback now cs fs u b = Inl e)) \<and>
   (validateFeedback b = None \<and> cs (fb_complaintId b) = Some c \<and> c_status c \<noteq> Resolved \<longrightarrow>
      post_feedback now cs fs u b
        = Inl (AppError ''Feedback can only be submitted for resolved complaints'' 400)) \<and>
   (findOne (fb_complaintId b) (user_id u) fs \<noteq> None \<longrightarrow>
      (\<exists>e. post_feedback now cs fs u b = Inl e)) \<and>
   (validateFeedback b = None \<and> cs (fb_complaintId b) = Some c \<and> c_status c = Resolved \<and>
    userId c = user_id u \<and> findOne (fb_complaintId b) (user_id u) fs \<noteq> None \<longrightarrow>
      post_feedback now cs fs u b
        = Inl (AppError ''You have already submitted feedback for this complaint'' 400)) \<and>
   ((case cs (complaintId f) of None \<Rightarrow> True | Some c \<Rightarrow> c_status c \<noteq> Resolved) \<or>
    findOne (complaintId f) (f_userId f) fs \<noteq> None \<longrightarrow>
      (\<exists>e. new_feedback now cs fs f = Inl e)) \<and>
   feedback_inv (run rs init_state)"
proof -
  have inv: "feedback_inv (run rs init_state)"
    by (rule inv_run[OF wf_init inv_init])
  have hook: "\<exists>e. new_feedback now cs fs f = Inl e"
    if "(case cs (complaintId f) of None \<Rightarrow> True | Some c \<Rightarrow> c_status c \<noteq> Resolved) \<or>
        findOne (complaintId f) (f_userId f) fs \<noteq> None"
    using that
    by (auto simp: new_feedback_def feedback_save_def feedback_pre_save_def
             split: option.splits)
  have route: "\<exists>e. post_feedback now cs fs u b = Inl e"
    if "(case cs (fb_complaintId b) of None \<Rightarrow> True | Some c \<Rightarrow> c_status c \<noteq> Resolved) \<or>
        findOne (fb_complaintId b) (user_id u) fs \<noteq> None"
    using that
    by (auto simp: post_feedback_def split: option.splits)
  show ?thesis
    using inv hook route
    by (auto simp: post_feedback_def split: option.splits)
qed

text \<open>Feedback on a pending complaint is refused, feedback on the resolved complaint is
  stored, and the same feedback again is refused: one record is stored.\<close>

theorem feedback_once_on_resolved_witness:
  "map fb_key (feedbackDb (run feedback_twice init_state)) = [(0, 2)] \<and>
   feedback_inv (run feedback_twice init_state) \<and>
   post_feedback 5 (complaintsDb (run (take 1 feedback_twice) init_state)) [] resident thanks_body
     = Inl (AppError ''Feedback can only be submitted for resolved complaints'' 400) \<and>
   post_feedback 30 (complaintsDb (run (take 4 feedback_twice) init_state))
       (feedbackDb (run (take 4 feedback_twice) init_state)) resident thanks_body
     = Inl (AppError ''You have already submitted feedback for this complaint'' 400)"
proof -
  let ?cs1 = "complaintsDb (run (take 1 feedback_twice) init_state)"
  let ?cs4 = "complaintsDb (run (take 4 feedback_twice) init_state)"
  let ?fs4 = "feedbackDb (run (take 4 feedback_twice) init_state)"
  have v: "validateFeedback thanks_body = None" "fb_complaintId thanks_body = 0"
      "user_id resident = 2"
    by (simp_all add: thanks_body_def resident_def validateFeedback_def)
  obtain c1 where c1: "?cs1 0 = Some c1" "c_status c1 = Pending"
    by (simp add: feedback_twice_def resident_def leak_body_def eval_defs)
  obtain c4 where c4: "?cs4 0 = Some c4" "c_status c4 = Resolved" "userId c4 = 2"
    by (simp add: feedback_twice_def thanks_body_def resident_def admin_def leak_body_def
          eval_defs)
  have f4: "findOne 0 2 ?fs4 \<noteq> None"
    by (simp add: feedback_twice_def thanks_body_def resident_def admin_def leak_body_def
          eval_defs)
  have e: "map fb_key (feedbackDb (run feedback_twice init_state)) = [(0, 2)]"
    by (simp add: feedback_twice_def thanks_body_def resident_def admin_def leak_body_def
          fb_key_def eval_defs)
  from feedback_once_on_resolved[where cs = ?cs1 and b = thanks_body and c = c1 and now = 5
      and fs = "[]" and u = resident and rs = feedback_twice] v c1
  have p: "post_feedback 5 ?cs1 [] resident thanks_body
     = Inl (AppError ''Feedback can only be submitted for resolved complaints'' 400)"
    and i: "feedback_inv (run feedback_twice init_state)"
    by simp_all
  from feedback_once_on_resolved[where cs = ?cs4 and b = thanks_body and c = c4 and now = 30
      and fs = ?fs4 and u = resident] v c4 f4
  have q: "post_feedback 30 ?cs4 ?fs4 resident thanks_body
     = Inl (AppError ''You have already submitted feedback for this complaint'' 400)"
    by simp
  from e i p q show ?thesis by simp
qed

end
